theory Spec2Isabelle
  imports Main "HOL-Library.AList"
begin

section \<open>Strings\<close>

text \<open>
  A Python \<open>str\<close> is a sequence of Unicode code points; slices and lengths count code
  points. A code point is a natural number, a string a list of them. ASCII literals are
  written through \<open>u\<close>, the other literals of \<open>bot.py\<close> as lists of code points.
\<close>

type_synonym ustring = "nat list"

definition u :: "string \<Rightarrow> ustring" where
  "u s = map of_char s"

text \<open>
  \<open>str.strip()\<close> without arguments removes leading and trailing whitespace; the
  characters it removes are those of \<open>str.isspace\<close>, which are also the characters the
  regular expression class \<open>\s\<close> matches on a \<open>str\<close> pattern.
\<close>

definition py_isspace :: "nat \<Rightarrow> bool" where
  "py_isspace c = (c \<in> {0x09, 0x0A, 0x0B, 0x0C, 0x0D, 0x1C, 0x1D, 0x1E, 0x1F, 0x20, 0x85, 0xA0,
      0x1680, 0x2000, 0x2001, 0x2002, 0x2003, 0x2004, 0x2005, 0x2006, 0x2007, 0x2008, 0x2009,
      0x200A, 0x2028, 0x2029, 0x202F, 0x205F, 0x3000})"

definition py_strip :: "ustring \<Rightarrow> ustring" where
  "py_strip s = rev (dropWhile py_isspace (rev (dropWhile py_isspace s)))"

section \<open>Persistent store\<close>

text \<open>
  Class \<open>Storage\<close> wraps three SQLite tables. A table with a primary key is an association
  list with at most one entry per key, in the order in which the rows were created. Column \<open>created_at\<close> of \<open>users\<close> is
  written by the database and never read by the program; it is left out. Every method
  takes the store and returns the store it leaves behind, together with its return value
  when it has one.
\<close>

record user_row =
  language :: ustring
  language_selected :: int
  preferred_format :: ustring

record storage =
  users :: "(int \<times> user_row) list"
  bot_settings :: "(ustring \<times> ustring) list"
  user_states :: "(int \<times> ustring) list"

definition default_row :: user_row where
  "default_row = \<lparr>language = u ''ru'', language_selected = 0, preferred_format = u ''auto''\<rparr>"

text \<open>\<open>Storage.__init__\<close> on a fresh database file: the tables are created and the caption
  row is inserted.\<close>

definition init_storage :: storage where
  "init_storage = \<lparr>users = [], bot_settings = [(u ''media_caption'', [])], user_states = []\<rparr>"

text \<open>\<open>INSERT OR IGNORE INTO users (user_id) VALUES (?)\<close>\<close>

definition upsert_user :: "storage \<Rightarrow> int \<Rightarrow> storage" where
  "upsert_user st uid =
     (case map_of (users st) uid of
        Some r \<Rightarrow> st
      | None \<Rightarrow> st\<lparr>users := users st @ [(uid, default_row)]\<rparr>)"

definition has_language :: "storage \<Rightarrow> int \<Rightarrow> bool \<times> storage" where
  "has_language st uid =
     (case map_of (users st) uid of
        Some r \<Rightarrow> (language_selected r = 1, st)
      | None \<Rightarrow> (False, st))"

definition get_language :: "storage \<Rightarrow> int \<Rightarrow> ustring \<times> storage" where
  "get_language st uid =
     (let st' = upsert_user st uid
      in (case map_of (users st') uid of
            Some r \<Rightarrow> if language r = u ''ru'' \<or> language r = u ''en'' then language r else u ''ru''
          | None \<Rightarrow> u ''ru'',
          st'))"

definition set_language :: "storage \<Rightarrow> int \<Rightarrow> ustring \<Rightarrow> storage" where
  "set_language st uid lang =
     (let st' = upsert_user st uid
      in st'\<lparr>users := map (\<lambda>(k, r). if k = uid
                 then (k, r\<lparr>language := lang, language_selected := 1\<rparr>) else (k, r)) (users st')\<rparr>)"

definition set_format :: "storage \<Rightarrow> int \<Rightarrow> ustring \<Rightarrow> storage" where
  "set_format st uid fmt =
     (let st' = upsert_user st uid
      in st'\<lparr>users := map (\<lambda>(k, r). if k = uid
                 then (k, r\<lparr>preferred_format := fmt\<rparr>) else (k, r)) (users st')\<rparr>)"

definition get_format :: "storage \<Rightarrow> int \<Rightarrow> ustring \<times> storage" where
  "get_format st uid =
     (let st' = upsert_user st uid
      in (case map_of (users st') uid of
            Some r \<Rightarrow> preferred_format r
          | None \<Rightarrow> u ''auto'',
          st'))"

text \<open>
  \<open>SELECT user_id FROM users\<close> scans the table by its \<open>INTEGER PRIMARY KEY\<close>: the
  identities come in ascending order, whatever the order in which the rows were created.
\<close>

definition all_users :: "storage \<Rightarrow> int list \<times> storage" where
  "all_users st = (sort (map fst (users st)), st)"

definition set_state :: "storage \<Rightarrow> int \<Rightarrow> ustring \<Rightarrow> storage" where
  "set_state st uid s = st\<lparr>user_states := AList.update uid s (user_states st)\<rparr>"

definition get_state :: "storage \<Rightarrow> int \<Rightarrow> ustring option \<times> storage" where
  "get_state st uid = (map_of (user_states st) uid, st)"

definition clear_state :: "storage \<Rightarrow> int \<Rightarrow> storage" where
  "clear_state st uid = st\<lparr>user_states := AList.delete uid (user_states st)\<rparr>"

definition get_media_caption :: "storage \<Rightarrow> ustring \<times> storage" where
  "get_media_caption st =
     (case map_of (bot_settings st) (u ''media_caption'') of
        Some v \<Rightarrow> (v, st)
      | None \<Rightarrow> ([], st))"

definition set_media_caption :: "storage \<Rightarrow> ustring \<Rightarrow> storage" where
  "set_media_caption st v = st\<lparr>bot_settings := AList.update (u ''media_caption'') v (bot_settings st)\<rparr>"

section \<open>Text catalog and transport calls\<close>

text \<open>
  \<open>TEXTS\<close> has one entry per locale, each with the same keys. \<open>t(lang, key, **kwargs)\<close>
  picks the entry of \<open>lang\<close>, the English one for any other \<open>lang\<close>, and fills the
  placeholders in. The rendered text is kept symbolic: the entry, the key and the arguments.
  Text that the program sends as it received it is \<open>Raw\<close>.
\<close>

datatype catalog = RU | EN

datatype text_key =
  K_welcome | K_choose_lang | K_lang_saved | K_menu | K_help | K_need_sub | K_send_link
| K_bad_link | K_downloading | K_sending | K_too_big | K_done | K_error | K_format_now
| K_format_saved | K_owner_only | K_broadcast_done | K_ask_caption | K_caption_saved
| K_ask_broadcast | K_cancelled | K_group_hint

datatype arg = A_str ustring | A_int int | A_bytes nat

datatype rendered = T catalog text_key "(string \<times> arg) list" | Raw ustring

definition t :: "ustring \<Rightarrow> text_key \<Rightarrow> (string \<times> arg) list \<Rightarrow> rendered" where
  "t lang key kwargs = T (if lang = u ''ru'' then RU else EN) key kwargs"

text \<open>The button labels of \<open>make_menu\<close>, which \<open>message_handler\<close> compares the text with.\<close>

definition btn_download_ru :: ustring where
  "btn_download_ru = [0x1F4E5, 0x20, 0x421, 0x43A, 0x430, 0x447, 0x430, 0x442, 0x44C, 0x20,
     0x432, 0x438, 0x434, 0x435, 0x43E, 0x2F, 0x43C, 0x435, 0x434, 0x438, 0x430]"

definition btn_format_ru :: ustring where
  "btn_format_ru = [0x1F3AC, 0x20, 0x424, 0x43E, 0x440, 0x43C, 0x430, 0x442]"

definition btn_language_ru :: ustring where
  "btn_language_ru = [0x1F310, 0x20, 0x42F, 0x437, 0x44B, 0x43A]"

definition btn_help_ru :: ustring where
  "btn_help_ru = [0x2139, 0xFE0F, 0x20, 0x41F, 0x43E, 0x43C, 0x43E, 0x449, 0x44C]"

definition btn_caption_ru :: ustring where
  "btn_caption_ru = [0x1F4DD, 0x20, 0x422, 0x435, 0x43A, 0x441, 0x442, 0x20, 0x43F, 0x43E, 0x434,
     0x20, 0x432, 0x438, 0x434, 0x435, 0x43E]"

definition btn_broadcast_ru :: ustring where
  "btn_broadcast_ru = [0x1F4E3, 0x20, 0x420, 0x430, 0x441, 0x441, 0x44B, 0x43B, 0x43A, 0x430]"

definition btn_download_en :: ustring where
  "btn_download_en = 0x1F4E5 # u '' Download video/media''"

definition btn_format_en :: ustring where
  "btn_format_en = 0x1F3AC # u '' Format''"

definition btn_language_en :: ustring where
  "btn_language_en = 0x1F310 # u '' Language''"

definition btn_help_en :: ustring where
  "btn_help_en = 0x2139 # 0xFE0F # u '' Help''"

definition btn_caption_en :: ustring where
  "btn_caption_en = 0x1F4DD # u '' Media caption''"

definition btn_broadcast_en :: ustring where
  "btn_broadcast_en = 0x1F4E3 # u '' Broadcast''"

text \<open>The Cyrillic cancel keyword.\<close>

definition otmena :: ustring where
  "otmena = [0x43E, 0x442, 0x43C, 0x435, 0x43D, 0x430]"

datatype markup =
  No_markup
| Reply_keyboard "ustring list list"
| Inline_keyboard "(ustring \<times> ustring) list list"
| Reply_keyboard_remove

definition make_menu :: "ustring \<Rightarrow> bool \<Rightarrow> markup" where
  "make_menu lang is_owner =
     (if lang = u ''ru''
      then Reply_keyboard ([[btn_download_ru], [btn_format_ru, btn_language_ru], [btn_help_ru]]
             @ (if is_owner then [[btn_caption_ru, btn_broadcast_ru]] else []))
      else Reply_keyboard ([[btn_download_en], [btn_format_en, btn_language_en], [btn_help_en]]
             @ (if is_owner then [[btn_caption_en, btn_broadcast_en]] else [])))"

definition make_format_buttons :: markup where
  "make_format_buttons = Inline_keyboard
     [[(u ''AUTO'', u ''fmt:auto''), (u ''MP4'', u ''fmt:mp4'')],
      [(u ''MKV'', u ''fmt:mkv''), (u ''MP3'', u ''fmt:mp3'')]]"

definition make_language_buttons :: markup where
  "make_language_buttons = Inline_keyboard
     [[([0x1F1F7, 0x1F1FA, 0x20, 0x420, 0x443, 0x441, 0x441, 0x43A, 0x438, 0x439], u ''lang:ru''),
       (0x1F1EC # 0x1F1E7 # u '' English'', u ''lang:en'')]]"

text \<open>
  The calls a handler makes on the transport, in the order it makes them:
  \<open>update.message.reply_text\<close>, \<open>context.bot.send_message\<close>, \<open>status.edit_text\<close>,
  \<open>status.delete\<close>, \<open>context.bot.send_document\<close>, \<open>query.edit_message_text\<close> and
  \<open>query.answer\<close>.
\<close>

datatype call =
  Reply_text rendered markup
| Send_message int rendered markup
| Edit_status rendered
| Delete_status
| Send_document int ustring rendered
| Edit_message_text rendered
| Answer "rendered option" bool

section \<open>Environment\<close>

text \<open>
  What the program asks of its surroundings is a parameter of the model.
  \<^item> \<open>str_lower\<close> is \<open>str.lower\<close>.
  \<^item> \<open>get_chat_member\<close> is the transport's membership lookup: the member's status, or the
    exception the call raises.
  \<^item> \<open>raises\<close> tells, for a transport call that the program makes inside \<open>try\<close>, whether
    it raises. A call outside \<open>try\<close> that raises ends the handler there; the model
    describes the runs in which those calls return.
  \<^item> \<open>subprocess_run\<close> is \<open>subprocess.run\<close> on a command line, given the files under the
    scratch directory: exit code, captured \<open>stdout\<close> and \<open>stderr\<close>, and the files the
    process leaves.
  \<^item> \<open>tmp_dir\<close> is the path of the directory \<open>tempfile.TemporaryDirectory\<close> creates,
    \<open>with_suffix\<close> is \<open>Path.with_suffix\<close>, \<open>stat_error\<close> is the \<open>FileNotFoundError\<close> that
    \<open>Path.stat\<close> raises for a path that is no file, \<open>get_me\<close> the bot's user name.
\<close>

datatype exn = Exception ustring

fun str_of_exn :: "exn \<Rightarrow> ustring" where
  "str_of_exn (Exception m) = m"

datatype member_status = OWNER | ADMINISTRATOR | MEMBER | RESTRICTED | LEFT | BANNED

record file_entry =
  fpath :: ustring
  st_mtime :: int
  st_size :: nat

record world =
  str_lower :: "ustring \<Rightarrow> ustring"
  get_chat_member :: "ustring \<Rightarrow> int \<Rightarrow> exn + member_status"
  raises :: "call \<Rightarrow> exn option"
  subprocess_run :: "ustring list \<Rightarrow> file_entry list \<Rightarrow> int \<times> ustring option \<times> ustring option \<times> file_entry list"
  tmp_dir :: ustring
  with_suffix :: "ustring \<Rightarrow> ustring \<Rightarrow> exn + ustring"
  stat_error :: "ustring \<Rightarrow> exn"
  get_me :: "ustring option"

record config =
  bot_token :: ustring
  owner_id :: int
  required_channel :: ustring
  max_file_size_mb :: int

section \<open>Subscription gate\<close>

definition check_subscription :: "world \<Rightarrow> ustring \<Rightarrow> int \<Rightarrow> bool" where
  "check_subscription w channel user_id =
     (case get_chat_member w channel user_id of
        Inr status \<Rightarrow> status \<in> {MEMBER, ADMINISTRATOR, OWNER, RESTRICTED}
      | Inl e \<Rightarrow> False)"

section \<open>Media acquisition\<close>

text \<open>
  \<open>run_command\<close> joins the captured streams with a newline and strips the result.
\<close>

definition run_command :: "world \<Rightarrow> ustring list \<Rightarrow> file_entry list \<Rightarrow> (int \<times> ustring) \<times> file_entry list" where
  "run_command w cmd files =
     (case subprocess_run w cmd files of
        (returncode, out, err, files') \<Rightarrow>
          ((returncode,
            py_strip ((case out of None \<Rightarrow> [] | Some s \<Rightarrow> s) @ [0x0A]
                      @ (case err of None \<Rightarrow> [] | Some s \<Rightarrow> s))),
           files'))"

text \<open>
  \<open>find_latest_file\<close> sorts the regular files under the folder by modification time,
  latest first, and returns the first. The sort is stable, also with \<open>reverse=True\<close>.
  Modification times are only compared; they are integers here. The list holds the
  regular files in the order of \<open>rglob\<close>.
\<close>

definition find_latest_file :: "file_entry list \<Rightarrow> ustring option" where
  "find_latest_file files =
     (if files = [] then None
      else Some (fpath (hd (sort_key (\<lambda>p. - st_mtime p) files))))"

definition yt_cmd :: "ustring \<Rightarrow> ustring \<Rightarrow> ustring list" where
  "yt_cmd url work_dir =
     [u ''yt-dlp'', u ''--no-playlist'', u ''-f'', u ''bv*+ba/b'', u ''--merge-output-format'',
      u ''mp4'', u ''--restrict-filenames'', u ''--no-warnings'', u ''-o'',
      work_dir @ u ''/%(title).100B-%(id)s.%(ext)s'', url]"

definition gd_cmd :: "ustring \<Rightarrow> ustring \<Rightarrow> ustring list" where
  "gd_cmd url work_dir = [u ''gallery-dl'', u ''--directory'', work_dir, u ''--write-metadata'', url]"

definition download_failed :: "ustring \<Rightarrow> ustring \<Rightarrow> exn" where
  "download_failed yt_log gd_log =
     Exception (u ''Download failed. yt-dlp: '' @ take 350 yt_log @ u '' | gallery-dl: ''
                @ take 350 gd_log)"

text \<open>
  \<open>download_media\<close> returns the file or the error it raises, the files it leaves under
  the directory, and the command lines it has run, in order.
\<close>

definition download_media ::
  "world \<Rightarrow> ustring \<Rightarrow> ustring \<Rightarrow> file_entry list \<Rightarrow> (exn + ustring) \<times> file_entry list \<times> ustring list list" where
  "download_media w url work_dir files =
     (case run_command w (yt_cmd url work_dir) files of
        ((code, yt_log), files1) \<Rightarrow>
          (case (if code = 0 then find_latest_file files1 else None) of
             Some file_path \<Rightarrow> (Inr file_path, files1, [yt_cmd url work_dir])
           | None \<Rightarrow>
               (case run_command w (gd_cmd url work_dir) files1 of
                  ((gcode, gd_log), files2) \<Rightarrow>
                    (case (if gcode = 0 then find_latest_file files2 else None) of
                       Some file_path \<Rightarrow>
                         (Inr file_path, files2, [yt_cmd url work_dir, gd_cmd url work_dir])
                     | None \<Rightarrow>
                         (Inl (download_failed yt_log gd_log), files2,
                          [yt_cmd url work_dir, gd_cmd url work_dir])))))"

section \<open>Transcoding\<close>

definition run_ffmpeg ::
  "world \<Rightarrow> ustring list \<Rightarrow> ustring \<Rightarrow> file_entry list \<Rightarrow> (exn + ustring) \<times> file_entry list" where
  "run_ffmpeg w cmd out files =
     (case run_command w cmd files of
        ((code, output), files') \<Rightarrow>
          if code \<noteq> 0 then (Inl (Exception (u ''ffmpeg failed: '' @ take 700 output)), files')
          else (Inr out, files'))"

definition ffmpeg_convert ::
  "world \<Rightarrow> ustring \<Rightarrow> ustring \<Rightarrow> file_entry list \<Rightarrow> (exn + ustring) \<times> file_entry list" where
  "ffmpeg_convert w source preset files =
     (if preset = u ''auto'' then (Inr source, files)
      else
        (case with_suffix w source (u ''.'' @ preset) of
           Inl e \<Rightarrow> (Inl e, files)
         | Inr out \<Rightarrow>
             if preset = u ''mp4'' \<or> preset = u ''mkv''
             then run_ffmpeg w [u ''ffmpeg'', u ''-y'', u ''-i'', source, u ''-c:v'', u ''libx264'',
                                u ''-c:a'', u ''aac'', out] out files
             else if preset = u ''mp3''
             then (case with_suffix w source (u ''.mp3'') of
                     Inl e \<Rightarrow> (Inl e, files)
                   | Inr out' \<Rightarrow>
                       run_ffmpeg w [u ''ffmpeg'', u ''-y'', u ''-i'', source, u ''-vn'', u ''-c:a'',
                                     u ''libmp3lame'', u ''-q:a'', u ''2'', out'] out' files)
             else (Inl (Exception (u ''Unsupported format preset'')), files)))"

section \<open>URL extraction\<close>

text \<open>
  \<open>URL_RE\<close> is \<open>https?://\S+\<close>, compiled with \<open>IGNORECASE\<close>. On a \<open>str\<close> the letters
  \<open>h\<close>, \<open>t\<close>, \<open>p\<close> match their two cases and \<open>s\<close> also matches U+017F; \<open>\S+\<close> takes the
  longest run of characters that are not whitespace, at least one.
  \<open>url_tail\<close> matches \<open>://\S+\<close> after the scheme, \<open>url_match\<close> the pattern at the head
  of the text, \<open>url_search\<close> at the leftmost position where it matches.
\<close>

definition url_tail :: "ustring \<Rightarrow> ustring \<Rightarrow> ustring option" where
  "url_tail scheme r =
     (case r of
        a # b # c # rest \<Rightarrow>
          if a = 0x3A \<and> b = 0x2F \<and> c = 0x2F \<and> takeWhile (\<lambda>x. \<not> py_isspace x) rest \<noteq> []
          then Some (scheme @ [a, b, c] @ takeWhile (\<lambda>x. \<not> py_isspace x) rest)
          else None
      | _ \<Rightarrow> None)"

definition url_match :: "ustring \<Rightarrow> ustring option" where
  "url_match s =
     (case s of
        c1 # c2 # c3 # c4 # r \<Rightarrow>
          if (c1 = 0x68 \<or> c1 = 0x48) \<and> (c2 = 0x74 \<or> c2 = 0x54) \<and> (c3 = 0x74 \<or> c3 = 0x54)
             \<and> (c4 = 0x70 \<or> c4 = 0x50)
          then (case r of
                  c5 # r' \<Rightarrow>
                    if c5 = 0x73 \<or> c5 = 0x53 \<or> c5 = 0x17F
                    then url_tail [c1, c2, c3, c4, c5] r'
                    else url_tail [c1, c2, c3, c4] r
                | [] \<Rightarrow> None)
          else None
      | _ \<Rightarrow> None)"

fun url_search :: "ustring \<Rightarrow> ustring option" where
  "url_search [] = None"
| "url_search (c # cs) =
     (case url_match (c # cs) of
        Some m \<Rightarrow> Some m
      | None \<Rightarrow> url_search cs)"

definition extract_url :: "ustring \<Rightarrow> ustring option" where
  "extract_url text = url_search text"

section \<open>Download pipeline\<close>

text \<open>
  \<open>attempt\<close> makes transport calls in order inside a \<open>try\<close> block: the calls made, the
  last of them the one that raised, and the exception if one did.
\<close>

fun attempt :: "world \<Rightarrow> call list \<Rightarrow> call list \<times> exn option" where
  "attempt w [] = ([], None)"
| "attempt w (c # cs) =
     (case raises w c of
        Some e \<Rightarrow> ([c], Some e)
      | None \<Rightarrow> (case attempt w cs of (made, r) \<Rightarrow> (c # made, r)))"

text \<open>
  The body of the \<open>try\<close> block of \<open>handle_download\<close>: the exception it ends with if any,
  the store and the transport calls made. The scratch directory is new, so it has no
  files. The size in megabytes is a quotient by \<open>2 ^ 20\<close>, which floating point computes
  exactly for a size below \<open>2 ^ 53\<close> bytes; the comparison is made on bytes. \<open>stat\<close> of a
  path that is no file under the directory raises \<open>stat_error\<close>.
\<close>

definition handle_download_try ::
  "world \<Rightarrow> storage \<Rightarrow> config \<Rightarrow> int \<Rightarrow> int \<Rightarrow> ustring \<Rightarrow> ustring \<Rightarrow> exn option \<times> storage \<times> call list" where
  "handle_download_try w st cfg chat sender_id url lang =
     (case download_media w url (tmp_dir w) [] of
        (Inl e, files1, cmds) \<Rightarrow> (Some e, st, [])
      | (Inr source, files1, cmds) \<Rightarrow>
          (case get_format st sender_id of
             (fmt, st1) \<Rightarrow>
               (case ffmpeg_convert w source fmt files1 of
                  (Inl e, files2) \<Rightarrow> (Some e, st1, [])
                | (Inr result, files2) \<Rightarrow>
                    (case find (\<lambda>f. fpath f = result) files2 of
                       None \<Rightarrow> (Some (stat_error w result), st1, [])
                     | Some f \<Rightarrow>
                         if int (st_size f) > max_file_size_mb cfg * 1048576
                         then (case attempt w [Edit_status (t lang K_too_big
                                       [(''size'', A_bytes (st_size f)),
                                        (''limit'', A_int (max_file_size_mb cfg))])] of
                                 (calls, r) \<Rightarrow> (r, st1, calls))
                         else (case get_media_caption st1 of
                                 (caption, st2) \<Rightarrow>
                                   (case attempt w
                                       [Edit_status (t lang K_sending [(''size'', A_bytes (st_size f))]),
                                        Send_document chat result
                                          (if py_strip caption = [] then t lang K_done []
                                           else Raw (py_strip caption)),
                                        Delete_status] of
                                      (calls, r) \<Rightarrow> (r, st2, calls)))))))"

definition handle_download ::
  "world \<Rightarrow> storage \<Rightarrow> config \<Rightarrow> int \<Rightarrow> int \<Rightarrow> ustring \<Rightarrow> ustring \<Rightarrow> storage \<times> call list" where
  "handle_download w st cfg chat sender_id url lang =
     (if \<not> check_subscription w (required_channel cfg) sender_id
      then (st, [Send_message chat (t lang K_need_sub [(''channel'', A_str (required_channel cfg))])
                   No_markup])
      else
        (case handle_download_try w st cfg chat sender_id url lang of
           (None, st', calls) \<Rightarrow>
             (st', Send_message chat (t lang K_downloading []) No_markup # calls)
         | (Some exc, st', calls) \<Rightarrow>
             (st', Send_message chat (t lang K_downloading []) No_markup # calls
                   @ [Edit_status (t lang K_error [(''err'', A_str (take 700 (str_of_exn exc)))])])))"

section \<open>Handlers\<close>

datatype chat_type = PRIVATE | GROUP | SUPERGROUP | CHANNEL

record chat =
  chat_id :: int
  chat_kind :: chat_type

datatype message = Message (msg_text: "ustring option")

record callback_query =
  from_user :: "int option"
  data :: "ustring option"

record update =
  effective_chat :: "chat option"
  effective_user :: "int option"
  message :: "message option"
  callback_query :: "callback_query option"

text \<open>The broadcast loop of \<open>message_handler\<close>: the tally and the calls made.\<close>

fun broadcast :: "world \<Rightarrow> ustring \<Rightarrow> int list \<Rightarrow> int \<Rightarrow> int \<Rightarrow> (int \<times> int) \<times> call list" where
  "broadcast w text [] sent failed = ((sent, failed), [])"
| "broadcast w text (user # rest) sent failed =
     (case (case raises w (Send_message user (Raw text) No_markup) of
              None \<Rightarrow> broadcast w text rest (sent + 1) failed
            | Some e \<Rightarrow> broadcast w text rest sent (failed + 1)) of
        (tally, calls) \<Rightarrow> (tally, Send_message user (Raw text) No_markup # calls))"

text \<open>The menu dispatch of \<open>message_handler\<close> in a private chat (the last \<open>if\<close> chain).\<close>

definition message_handler_menu ::
  "storage \<Rightarrow> int \<Rightarrow> ustring \<Rightarrow> bool \<Rightarrow> ustring \<Rightarrow> storage \<times> call list" where
  "message_handler_menu st uid lang is_owner text =
     (if text = btn_download_ru \<or> text = btn_download_en
      then (set_state st uid (u ''awaiting_url''),
            [Reply_text (t lang K_send_link []) Reply_keyboard_remove])
      else if text = btn_format_ru \<or> text = btn_format_en
      then (case get_format st uid of
              (fmt, st') \<Rightarrow>
                (st', [Reply_text (t lang K_format_now [(''fmt'', A_str fmt)]) make_format_buttons]))
      else if text = btn_language_ru \<or> text = btn_language_en
      then (st, [Reply_text (t lang K_choose_lang []) make_language_buttons])
      else if text = btn_help_ru \<or> text = btn_help_en
      then (st, [Reply_text (t lang K_help []) (make_menu lang is_owner)])
      else if text = btn_caption_ru \<or> text = btn_caption_en
      then (if \<not> is_owner
            then (st, [Reply_text (t lang K_owner_only []) (make_menu lang is_owner)])
            else (set_state st uid (u ''awaiting_caption''),
                  [Reply_text (t lang K_ask_caption []) Reply_keyboard_remove]))
      else if text = btn_broadcast_ru \<or> text = btn_broadcast_en
      then (if \<not> is_owner
            then (st, [Reply_text (t lang K_owner_only []) (make_menu lang is_owner)])
            else (set_state st uid (u ''awaiting_broadcast''),
                  [Reply_text (t lang K_ask_broadcast []) Reply_keyboard_remove]))
      else (st, [Reply_text (t lang K_menu []) (make_menu lang is_owner)]))"

text \<open>The branch of \<open>message_handler\<close> for a private chat.\<close>

definition message_handler_private ::
  "world \<Rightarrow> config \<Rightarrow> storage \<Rightarrow> chat \<Rightarrow> int \<Rightarrow> ustring \<Rightarrow> bool \<Rightarrow> ustring \<Rightarrow> storage \<times> call list" where
  "message_handler_private w cfg st chat uid lang is_owner text =
     (if text = u ''/start'' then (st, [])
      else
        (case get_state st uid of
           (state, st1) \<Rightarrow>
             if str_lower w text = u ''cancel'' \<or> str_lower w text = otmena
             then (clear_state st1 uid,
                   [Reply_text (t lang K_cancelled []) (make_menu lang is_owner)])
             else if state = Some (u ''awaiting_url'')
             then (case extract_url text of
                     None \<Rightarrow> (st1, [Reply_text (t lang K_bad_link []) No_markup])
                   | Some url \<Rightarrow>
                       (case handle_download w (clear_state st1 uid) cfg (chat_id chat) uid url lang of
                          (st2, calls) \<Rightarrow>
                            (st2, calls @ [Reply_text (t lang K_menu []) (make_menu lang is_owner)])))
             else if state = Some (u ''awaiting_caption'') \<and> is_owner
             then (clear_state (set_media_caption st1 text) uid,
                   [Reply_text (t lang K_caption_saved []) (make_menu lang True)])
             else if state = Some (u ''awaiting_broadcast'') \<and> is_owner
             then (case all_users (clear_state st1 uid) of
                     (recipients, st2) \<Rightarrow>
                       (case broadcast w text recipients 0 0 of
                          ((sent, failed), calls) \<Rightarrow>
                            (st2, calls @ [Reply_text (t lang K_broadcast_done
                                             [(''sent'', A_int sent), (''failed'', A_int failed)])
                                           (make_menu lang True)])))
             else message_handler_menu st1 uid lang is_owner text))"

text \<open>\<open>mention in lower\<close>: the first string occurs in the second.\<close>

fun contains :: "ustring \<Rightarrow> ustring \<Rightarrow> bool" where
  "contains xs [] = (xs = [])"
| "contains xs (y # ys) = (take (length xs) (y # ys) = xs \<or> contains xs ys)"

text \<open>The branch of \<open>message_handler\<close> for a group or a supergroup.\<close>

definition message_handler_group ::
  "world \<Rightarrow> config \<Rightarrow> storage \<Rightarrow> chat \<Rightarrow> int \<Rightarrow> ustring \<Rightarrow> ustring \<Rightarrow> storage \<times> call list" where
  "message_handler_group w cfg st chat uid lang text =
     (let mention = 0x40 # str_lower w (case get_me w of None \<Rightarrow> [] | Some n \<Rightarrow> n);
          lower = str_lower w text
      in if mention = [] \<or> \<not> contains mention lower then (st, [])
         else (case extract_url text of
                 None \<Rightarrow> (st, [])
               | Some url \<Rightarrow> handle_download w st cfg (chat_id chat) uid url lang))"

definition message_handler :: "world \<Rightarrow> config \<Rightarrow> storage \<Rightarrow> update \<Rightarrow> storage \<times> call list" where
  "message_handler w cfg st upd =
     (if effective_chat upd = None \<or> effective_user upd = None \<or> message upd = None then (st, [])
      else
        (let text = py_strip (case msg_text (the (message upd)) of None \<Rightarrow> [] | Some s \<Rightarrow> s)
         in if text = [] then (st, [])
            else
              (let uid = the (effective_user upd);
                   st1 = upsert_user st uid
               in (case get_language st1 uid of
                     (lang, st2) \<Rightarrow>
                       if chat_kind (the (effective_chat upd)) = PRIVATE
                       then message_handler_private w cfg st2 (the (effective_chat upd)) uid lang
                              (uid = owner_id cfg) text
                       else if chat_kind (the (effective_chat upd)) = GROUP
                               \<or> chat_kind (the (effective_chat upd)) = SUPERGROUP
                       then message_handler_group w cfg st2 (the (effective_chat upd)) uid lang text
                       else (st2, [])))))"

text \<open>
  \<open>start_handler\<close> is registered for the command \<open>/start\<close>, an update that carries the
  message the replies go to.
\<close>

definition start_handler :: "world \<Rightarrow> config \<Rightarrow> storage \<Rightarrow> update \<Rightarrow> storage \<times> call list" where
  "start_handler w cfg st upd =
     (if effective_chat upd = None \<or> effective_user upd = None then (st, [])
      else if chat_kind (the (effective_chat upd)) \<noteq> PRIVATE
      then (st, [Reply_text (t (u ''ru'') K_group_hint
                   [(''username'', A_str (case get_me w of
                                            None \<Rightarrow> u ''bot''
                                          | Some n \<Rightarrow> if n = [] then u ''bot'' else n))])
                   No_markup])
      else
        (let uid = the (effective_user upd);
             st1 = upsert_user st uid
         in (case has_language st1 uid of
               (selected, st2) \<Rightarrow>
                 if \<not> selected
                 then (st2, [Reply_text (T RU K_choose_lang []) make_language_buttons])
                 else (case get_language st2 uid of
                         (lang, st3) \<Rightarrow>
                           (st3, [Reply_text (t lang K_welcome [])
                                    (make_menu lang (uid = owner_id cfg))])))))"

text \<open>
  In \<open>callback_handler\<close> the payload starts with \<open>"lang:"\<close> or \<open>"fmt:"\<close> where it is split
  at its first colon, so the part after the colon is the payload without that prefix.
\<close>

definition callback_handler :: "world \<Rightarrow> config \<Rightarrow> storage \<Rightarrow> update \<Rightarrow> storage \<times> call list" where
  "callback_handler w cfg st upd =
     (case callback_query upd of
        None \<Rightarrow> (st, [])
      | Some query \<Rightarrow>
          (case from_user query of
             None \<Rightarrow> (st, [])
           | Some uid \<Rightarrow>
               (let st1 = upsert_user st uid;
                    payload = (case data query of None \<Rightarrow> [] | Some d \<Rightarrow> d)
                in if take 5 payload = u ''lang:''
                   then (let lang = drop 5 payload
                         in if lang \<noteq> u ''ru'' \<and> lang \<noteq> u ''en''
                            then (st1, [Answer (Some (Raw (u ''Invalid language''))) True])
                            else (set_language st1 uid lang,
                                  [Edit_message_text (t lang K_lang_saved []),
                                   Send_message uid (t lang K_menu []) (make_menu lang (uid = owner_id cfg)),
                                   Answer None False]))
                   else if take 4 payload = u ''fmt:''
                   then (let fmt = drop 4 payload
                         in if fmt \<noteq> u ''auto'' \<and> fmt \<noteq> u ''mp4'' \<and> fmt \<noteq> u ''mkv'' \<and> fmt \<noteq> u ''mp3''
                            then (st1, [Answer (Some (Raw (u ''Invalid format''))) True])
                            else (case get_language (set_format st1 uid fmt) uid of
                                    (lang, st2) \<Rightarrow>
                                      (st2, [Answer (Some (t lang K_format_saved [(''fmt'', A_str fmt)]))
                                               True])))
                   else (st1, []))))"

section \<open>Observations and example inputs\<close>

text \<open>A broadcast send is \<open>context.bot.send_message\<close> of a received text to a user.\<close>

fun is_broadcast_send :: "call \<Rightarrow> bool" where
  "is_broadcast_send (Send_message user (Raw text) m) = True"
| "is_broadcast_send c = False"

text \<open>
  An environment for the concrete runs below: every transport call returns, every user is
  a member of the channel, the tools exit with code 0 and write nothing, and \<open>str_lower\<close>
  lowers the ASCII letters, as \<open>str.lower\<close> does on ASCII text.
\<close>

definition example_lower :: "ustring \<Rightarrow> ustring" where
  "example_lower s = map (\<lambda>c. if 0x41 \<le> c \<and> c \<le> 0x5A then c + 0x20 else c) s"

definition example_world :: world where
  "example_world =
     \<lparr>str_lower = example_lower,
      get_chat_member = (\<lambda>channel user_id. Inr MEMBER),
      raises = (\<lambda>c. None),
      subprocess_run = (\<lambda>cmd files. (0, Some [], Some [], files)),
      tmp_dir = u ''/tmp/tg_dl_0'',
      with_suffix = (\<lambda>p suffix. Inr (p @ suffix)),
      stat_error = (\<lambda>p. Exception (u ''[Errno 2] No such file or directory: '' @ [0x27] @ p @ [0x27])),
      get_me = Some (u ''bot'')\<rparr>"

definition example_cfg :: config where
  "example_cfg =
     \<lparr>bot_token = u ''token'', owner_id = 1, required_channel = u ''@channel'',
      max_file_size_mb = 2048\<rparr>"

text \<open>A text message in the private chat of a user; the chat has the user's identity.\<close>

definition private_update :: "int \<Rightarrow> ustring \<Rightarrow> update" where
  "private_update uid s =
     \<lparr>effective_chat = Some \<lparr>chat_id = uid, chat_kind = PRIVATE\<rparr>,
      effective_user = Some uid,
      message = Some (Message (Some s)),
      callback_query = None\<rparr>"

text \<open>
  Two more environments. In \<open>partial_world\<close> the primary downloader fails and leaves a
  partial file, and the fallback exits with code 0 without writing a file. In
  \<open>primary_world\<close> the primary downloader writes the media file and exits with code 0.
\<close>

definition part_file :: file_entry where
  "part_file = \<lparr>fpath = u ''/tmp/tg_dl_0/clip.mp4.part'', st_mtime = 10, st_size = 4096\<rparr>"

definition partial_world :: world where
  "partial_world = example_world\<lparr>subprocess_run :=
      (\<lambda>cmd files. if hd cmd = u ''yt-dlp''
                    then (1, Some [], Some (u ''ERROR: timed out''), files @ [part_file])
                    else (0, Some [], Some [], files))\<rparr>"

definition media_file :: file_entry where
  "media_file = \<lparr>fpath = u ''/tmp/tg_dl_0/clip.mp4'', st_mtime = 12, st_size = 1048576\<rparr>"

definition primary_world :: world where
  "primary_world = example_world\<lparr>subprocess_run :=
      (\<lambda>cmd files. if hd cmd = u ''yt-dlp''
                    then (0, Some [], Some [], files @ [media_file])
                    else (0, Some [], Some [], files))\<rparr>"

text \<open>
  An environment in which every send to user 2 raises, and a store with the users 3, 1
  and 2, created in that order, in which user 1 is in \<open>awaiting_broadcast\<close>.
\<close>


definition failing_world :: world where
  "failing_world = example_world\<lparr>raises :=
      (\<lambda>c. case c of
             Send_message user text m \<Rightarrow> if user = 2 then Some (Exception (u ''Forbidden'')) else None
           | _ \<Rightarrow> None)\<rparr>"

definition three_users :: storage where
  "three_users = set_state (upsert_user (upsert_user (upsert_user init_storage 3) 1) 2) 1
                   (u ''awaiting_broadcast'')"

section \<open>Properties of the store\<close>

lemma users_upsert_user:
  "map_of (users (upsert_user st uid)) uid \<noteq> None"
  by (simp add: upsert_user_def map_add_def split: option.split)

lemma lookup_upsert_user:
  "map_of (users (upsert_user st uid)) uid =
     Some (case map_of (users st) uid of Some r \<Rightarrow> r | None \<Rightarrow> default_row)"
  by (simp add: upsert_user_def map_add_def split: option.split)

text \<open>
  C10. \<open>get_language\<close> returns \<open>"ru"\<close> or \<open>"en"\<close> for every store and identity: the
  stored language when the identity has a row whose language is one of the two, and
  \<open>"ru"\<close> when the identity has no row (no stored value) or the stored value is anything
  else.
\<close>

theorem get_language_ru_en:
  "fst (get_language st uid) \<in> {u ''ru'', u ''en''} \<and>
   fst (get_language st uid) =
     (case map_of (users st) uid of
        None \<Rightarrow> u ''ru''
      | Some r \<Rightarrow> if language r \<in> {u ''ru'', u ''en''} then language r else u ''ru'')"
  by (simp add: get_language_def lookup_upsert_user default_row_def split: option.split)

lemma upsert_user_states [simp]: "user_states (upsert_user st uid) = user_states st"
  by (simp add: upsert_user_def split: option.split)

lemma upsert_user_settings [simp]: "bot_settings (upsert_user st uid) = bot_settings st"
  by (simp add: upsert_user_def split: option.split)

lemma upsert_user_idem [simp]: "upsert_user (upsert_user st uid) uid = upsert_user st uid"
  by (simp add: upsert_user_def map_add_def split: option.split)

lemma get_language_store [simp]: "snd (get_language st uid) = upsert_user st uid"
  by (simp add: get_language_def Let_def)

lemma get_language_upsert [simp]:
  "fst (get_language (upsert_user st uid) uid) = fst (get_language st uid)"
  by (simp add: get_language_def Let_def)

lemma get_format_store [simp]: "snd (get_format st uid) = upsert_user st uid"
  by (simp add: get_format_def Let_def)

text \<open>
  C4 as the claim states it fails: \<open>has_language\<close> and \<open>get_state\<close> only select, so on a
  fresh store the identity has no profile row after either call.
\<close>

theorem has_language_no_row_counterexample:
  "map_of (users (snd (has_language init_storage 7))) 7 = None \<and>
   map_of (users (snd (get_state init_storage 7))) 7 = None"
  by (simp add: has_language_def get_state_def init_storage_def)

text \<open>
  C4, amended. \<open>get_language\<close> and \<open>get_format\<close> leave the identity with a profile row:
  the row it had, or the default row when it had none. \<open>has_language\<close>, \<open>get_state\<close>,
  \<open>all_users\<close> and \<open>get_media_caption\<close> leave the store as it was; \<open>has_language\<close>
  answers as it would after the row had been created, which is false for an identity
  without a row, and \<open>get_state\<close> does not depend on the profile rows.
\<close>

theorem reads_upsert_amended:
  "map_of (users (snd (get_language st uid))) uid =
     Some (case map_of (users st) uid of None \<Rightarrow> default_row | Some r \<Rightarrow> r) \<and>
   map_of (users (snd (get_format st uid))) uid =
     Some (case map_of (users st) uid of None \<Rightarrow> default_row | Some r \<Rightarrow> r) \<and>
   snd (has_language st uid) = st \<and>
   fst (has_language st uid) = fst (has_language (upsert_user st uid) uid) \<and>
   fst (has_language st uid) =
     (case map_of (users st) uid of None \<Rightarrow> False | Some r \<Rightarrow> language_selected r = 1) \<and>
   snd (get_state st uid) = st \<and>
   fst (get_state st uid) = fst (get_state (upsert_user st uid) uid) \<and>
   snd (all_users st) = st \<and>
   snd (get_media_caption st) = st"
  by (simp add: lookup_upsert_user has_language_def get_state_def default_row_def
      all_users_def get_media_caption_def split: option.split)

text \<open>
  The identity is the primary key of \<open>users\<close>: the methods keep the identities of the
  table distinct, so \<open>all_users\<close> lists every known user once.
\<close>

lemma upsert_user_keys:
  "distinct (map fst (users st)) \<Longrightarrow> distinct (map fst (users (upsert_user st uid)))"
  by (auto simp add: upsert_user_def map_of_eq_None_iff split: option.split)

lemma set_language_keys: "map fst (users (set_language st uid lang)) = map fst (users (upsert_user st uid))"
  by (simp add: set_language_def Let_def split_beta comp_def)

lemma set_format_keys: "map fst (users (set_format st uid fmt)) = map fst (users (upsert_user st uid))"
  by (simp add: set_format_def Let_def split_beta comp_def)

lemma init_storage_keys: "distinct (map fst (users init_storage))"
  by (simp add: init_storage_def)

lemma all_users_distinct:
  "distinct (map fst (users st)) \<Longrightarrow> distinct (fst (all_users (upsert_user st uid)))"
  by (simp add: all_users_def upsert_user_keys)

section \<open>Properties of the subscription gate\<close>

lemma member_status_subscribed:
  "(s \<noteq> LEFT \<and> s \<noteq> BANNED) = (s \<in> {MEMBER, ADMINISTRATOR, OWNER, RESTRICTED})"
  by (cases s) simp_all

text \<open>
  C6. \<open>check_subscription\<close> is true exactly when the transport returns the status member,
  administrator, owner or restricted. When the lookup raises the result is false, and for a
  status that is returned it is false exactly for left and banned, the other two statuses.
\<close>

theorem check_subscription_fails_closed:
  "check_subscription w channel user_id =
     (get_chat_member w channel user_id \<in> {Inr MEMBER, Inr ADMINISTRATOR, Inr OWNER, Inr RESTRICTED})
   \<and> (case get_chat_member w channel user_id of
         Inl e \<Rightarrow> check_subscription w channel user_id = False
       | Inr status \<Rightarrow> check_subscription w channel user_id = (status \<noteq> LEFT \<and> status \<noteq> BANNED))"
  by (cases "get_chat_member w channel user_id")
     (auto simp add: check_subscription_def member_status_subscribed)

section \<open>Frame properties\<close>


lemma set_state_lookup [simp]:
  "map_of (user_states (set_state st uid s)) uid' = (if uid' = uid then Some s else map_of (user_states st) uid')"
  by (simp add: set_state_def update_conv')

lemma clear_state_lookup [simp]:
  "map_of (user_states (clear_state st uid)) uid' = (if uid' = uid then None else map_of (user_states st) uid')"
  by (simp add: clear_state_def delete_conv')

lemma clear_state_settings [simp]: "bot_settings (clear_state st uid) = bot_settings st"
  by (simp add: clear_state_def)

lemma set_state_settings [simp]: "bot_settings (set_state st uid s) = bot_settings st"
  by (simp add: set_state_def)

lemma set_media_caption_states [simp]: "user_states (set_media_caption st v) = user_states st"
  by (simp add: set_media_caption_def)

lemma get_media_caption_set [simp]: "fst (get_media_caption (set_media_caption st v)) = v"
  by (simp add: get_media_caption_def set_media_caption_def update_conv')

lemma get_media_caption_clear [simp]:
  "get_media_caption (clear_state st uid) = (fst (get_media_caption st), clear_state st uid)"
  by (simp add: get_media_caption_def split: option.split)

lemma handle_download_try_states [simp]:
  "user_states (fst (snd (handle_download_try w st cfg chat sender_id url lang))) = user_states st"
  by (simp add: handle_download_try_def get_media_caption_def split_beta
      split: prod.split sum.split option.split)

lemma handle_download_try_settings [simp]:
  "bot_settings (fst (snd (handle_download_try w st cfg chat sender_id url lang))) = bot_settings st"
  by (simp add: handle_download_try_def get_media_caption_def split_beta
      split: prod.split sum.split option.split)

lemma handle_download_states [simp]:
  "user_states (fst (handle_download w st cfg chat sender_id url lang)) = user_states st"
proof (cases "handle_download_try w st cfg chat sender_id url lang")
  case (fields r st' calls)
  with handle_download_try_states [of w st cfg chat sender_id url lang]
  show ?thesis by (simp add: handle_download_def split: option.split)
qed

lemma handle_download_settings [simp]:
  "bot_settings (fst (handle_download w st cfg chat sender_id url lang)) = bot_settings st"
proof (cases "handle_download_try w st cfg chat sender_id url lang")
  case (fields r st' calls)
  with handle_download_try_settings [of w st cfg chat sender_id url lang]
  show ?thesis by (simp add: handle_download_def split: option.split)
qed

section \<open>Properties of the message handler\<close>

lemma py_strip_blank_iff: "(py_strip s = []) = list_all py_isspace s"
proof
  assume "list_all py_isspace s"
  then have "dropWhile py_isspace s = []"
    by (simp add: list_all_iff)
  then show "py_strip s = []"
    by (simp only: py_strip_def dropWhile.simps rev.simps)
next
  assume "py_strip s = []"
  then have all: "\<forall>x\<in>set (dropWhile py_isspace s). py_isspace x"
    by (simp add: py_strip_def)
  have "dropWhile py_isspace s = []"
  proof (rule ccontr)
    assume ne: "dropWhile py_isspace s \<noteq> []"
    then have "\<not> py_isspace (hd (dropWhile py_isspace s))"
      by (rule hd_dropWhile)
    moreover have "hd (dropWhile py_isspace s) \<in> set (dropWhile py_isspace s)"
      using ne by simp
    ultimately show False
      using all by blast
  qed
  then show "list_all py_isspace s"
    by (simp add: list_all_iff)
qed

lemma message_handler_private_eq:
  assumes "effective_chat upd = Some chat" and "chat_kind chat = PRIVATE"
    and "effective_user upd = Some uid" and "message upd = Some (Message (Some raw))"
    and "py_strip raw \<noteq> []"
  shows "message_handler w cfg st upd =
           message_handler_private w cfg (upsert_user st uid) chat uid (fst (get_language st uid))
             (uid = owner_id cfg) (py_strip raw)"
  using assms
  by (simp add: message_handler_def Let_def split_beta)

text \<open>
  C8. When the text of the message is absent, empty or only whitespace, \<open>message_handler\<close>
  makes no transport call and returns the store it was given, whatever the store, the
  sender and the chat are: no row is created and no state is changed or cleared, and the
  outcome does not depend on any state the store holds.
\<close>

theorem blank_text_no_action:
  assumes "message upd = Some (Message content)"
    and "list_all py_isspace (case content of None \<Rightarrow> [] | Some s \<Rightarrow> s)"
  shows "message_handler w cfg st upd = (st, [])"
  using assms by (simp add: message_handler_def py_strip_blank_iff)

theorem blank_text_no_action_witness:
  "message_handler example_world example_cfg (set_state init_storage 5 (u ''awaiting_url''))
     (private_update 5 [0x20, 0x09]) = (set_state init_storage 5 (u ''awaiting_url''), [])"
  by (rule blank_text_no_action [where content = "Some [0x20, 0x09]"])
     (simp_all add: private_update_def py_isspace_def)

section \<open>Properties of media acquisition\<close>

lemma find_latest_file_latest:
  assumes "find_latest_file files = Some p"
  shows "\<exists>f\<in>set files. fpath f = p \<and> (\<forall>g\<in>set files. st_mtime g \<le> st_mtime f)"
proof -
  from assms have ne: "files \<noteq> []" and p: "p = fpath (hd (sort_key (\<lambda>p. - st_mtime p) files))"
    by (auto simp add: find_latest_file_def split: if_splits)
  let ?s = "sort_key (\<lambda>p. - st_mtime p) files"
  from ne have sne: "?s \<noteq> []" by (metis length_sort list.size(3) length_0_conv)
  then obtain f fs where s: "?s = f # fs" by (cases ?s) auto
  have "sorted (map (\<lambda>p. - st_mtime p) ?s)" by (rule sorted_sort_key)
  with s have le: "\<forall>g\<in>set (f # fs). st_mtime g \<le> st_mtime f" by auto
  have eq: "set (f # fs) = set files" using s by (metis set_sort)
  then have "f \<in> set files" by auto
  moreover have "\<forall>g\<in>set files. st_mtime g \<le> st_mtime f" using le eq by blast
  moreover have "fpath f = p" using p s by simp
  ultimately show ?thesis by blast
qed

text \<open>
  C5 as the claim states it fails in its last sentence. The primary downloader exits with
  code 1 and leaves a partial file; the fallback exits with code 0 and writes nothing. The
  directory is not empty then, and \<open>download_media\<close> returns the partial file, which the
  failed invocation produced.
\<close>

theorem failed_tool_file_returned_counterexample:
  "run_command partial_world (yt_cmd (u ''http://x.test/v'') (u ''/tmp/tg_dl_0'')) [] =
     ((1, u ''ERROR: timed out''), [part_file]) \<and>
   run_command partial_world (gd_cmd (u ''http://x.test/v'') (u ''/tmp/tg_dl_0'')) [part_file] =
     ((0, []), [part_file]) \<and>
   fst (download_media partial_world (u ''http://x.test/v'') (u ''/tmp/tg_dl_0'') []) =
     Inr (fpath part_file)"
  by (simp add: download_media_def run_command_def partial_world_def example_world_def
      yt_cmd_def gd_cmd_def find_latest_file_def py_strip_def py_isspace_def u_def)

text \<open>
  C5, amended. Let the primary downloader exit with \<open>code\<close> and log \<open>yt_log\<close> and leave
  \<open>files1\<close>, and the fallback, run on \<open>files1\<close>, exit with \<open>gcode\<close> and log \<open>gd_log\<close> and
  leave \<open>files2\<close>. A file is returned only right after an invocation that exited with
  code 0 and left the directory with a file in it, and then it is a latest-modified file
  under the directory at that moment. When the primary
  passes the check the fallback is not run; when it fails the check the fallback is run on
  the same directory with the same check; when both fail the error raised carries the
  first 350 characters of each log.
\<close>

theorem download_media_amended:
  assumes "run_command w (yt_cmd url work_dir) files = ((code, yt_log), files1)"
    and "run_command w (gd_cmd url work_dir) files1 = ((gcode, gd_log), files2)"
  shows "(\<forall>p. fst (download_media w url work_dir files) = Inr p \<longrightarrow>
            (code = 0 \<and> find_latest_file files1 = Some p) \<or>
            ((code \<noteq> 0 \<or> files1 = []) \<and> gcode = 0 \<and> find_latest_file files2 = Some p)) \<and>
         (code = 0 \<and> files1 \<noteq> [] \<longrightarrow>
            (\<exists>p. download_media w url work_dir files = (Inr p, files1, [yt_cmd url work_dir]))) \<and>
         ((code \<noteq> 0 \<or> files1 = []) \<and> gcode = 0 \<and> files2 \<noteq> [] \<longrightarrow>
            (\<exists>p. download_media w url work_dir files =
                   (Inr p, files2, [yt_cmd url work_dir, gd_cmd url work_dir]))) \<and>
         ((code \<noteq> 0 \<or> files1 = []) \<and> (gcode \<noteq> 0 \<or> files2 = []) \<longrightarrow>
            download_media w url work_dir files =
              (Inl (Exception (u ''Download failed. yt-dlp: '' @ take 350 yt_log
                               @ u '' | gallery-dl: '' @ take 350 gd_log)),
               files2, [yt_cmd url work_dir, gd_cmd url work_dir])) \<and>
         (\<forall>fs p. find_latest_file fs = Some p \<longrightarrow>
            (\<exists>f\<in>set fs. fpath f = p \<and> (\<forall>g\<in>set fs. st_mtime g \<le> st_mtime f)))"
  using assms find_latest_file_latest
  by (auto simp add: download_media_def download_failed_def find_latest_file_def split: if_splits)


lemma run_yt_partial:
  "run_command partial_world (yt_cmd (u ''http://x.test/v'') (u ''/tmp/tg_dl_0'')) [] =
     ((1, u ''ERROR: timed out''), [part_file])"
  by (simp add: run_command_def partial_world_def example_world_def yt_cmd_def py_strip_def
      py_isspace_def u_def)

lemma run_gd_partial:
  "run_command partial_world (gd_cmd (u ''http://x.test/v'') (u ''/tmp/tg_dl_0'')) [part_file] =
     ((0, []), [part_file])"
  by (simp add: run_command_def partial_world_def example_world_def gd_cmd_def py_strip_def
      py_isspace_def u_def)

lemma run_yt_primary:
  "run_command primary_world (yt_cmd (u ''http://x.test/v'') (u ''/tmp/tg_dl_0'')) [] =
     ((0, []), [media_file])"
  by (simp add: run_command_def primary_world_def example_world_def yt_cmd_def py_strip_def
      py_isspace_def u_def)

lemma run_gd_primary:
  "run_command primary_world (gd_cmd (u ''http://x.test/v'') (u ''/tmp/tg_dl_0'')) [media_file] =
     ((0, []), [media_file])"
  by (simp add: run_command_def primary_world_def example_world_def gd_cmd_def py_strip_def
      py_isspace_def u_def)

lemma run_yt_example:
  "run_command example_world (yt_cmd (u ''http://x.test/v'') (u ''/tmp/tg_dl_0'')) [] = ((0, []), [])"
  by (simp add: run_command_def example_world_def py_strip_def py_isspace_def)

lemma run_gd_example:
  "run_command example_world (gd_cmd (u ''http://x.test/v'') (u ''/tmp/tg_dl_0'')) [] = ((0, []), [])"
  by (simp add: run_command_def example_world_def py_strip_def py_isspace_def)

theorem download_media_amended_witness:
  "(\<exists>p. download_media primary_world (u ''http://x.test/v'') (u ''/tmp/tg_dl_0'') [] =
          (Inr p, [media_file], [yt_cmd (u ''http://x.test/v'') (u ''/tmp/tg_dl_0'')])) \<and>
   (\<exists>p. download_media partial_world (u ''http://x.test/v'') (u ''/tmp/tg_dl_0'') [] =
          (Inr p, [part_file], [yt_cmd (u ''http://x.test/v'') (u ''/tmp/tg_dl_0''),
                               gd_cmd (u ''http://x.test/v'') (u ''/tmp/tg_dl_0'')])) \<and>
   download_media example_world (u ''http://x.test/v'') (u ''/tmp/tg_dl_0'') [] =
     (Inl (Exception (u ''Download failed. yt-dlp:  | gallery-dl: '')), [],
      [yt_cmd (u ''http://x.test/v'') (u ''/tmp/tg_dl_0''),
       gd_cmd (u ''http://x.test/v'') (u ''/tmp/tg_dl_0'')])"
proof -
  have a: "\<exists>p. download_media primary_world (u ''http://x.test/v'') (u ''/tmp/tg_dl_0'') [] =
          (Inr p, [media_file], [yt_cmd (u ''http://x.test/v'') (u ''/tmp/tg_dl_0'')])"
    using download_media_amended [OF run_yt_primary run_gd_primary] by simp
  have b: "\<exists>p. download_media partial_world (u ''http://x.test/v'') (u ''/tmp/tg_dl_0'') [] =
          (Inr p, [part_file], [yt_cmd (u ''http://x.test/v'') (u ''/tmp/tg_dl_0''),
                               gd_cmd (u ''http://x.test/v'') (u ''/tmp/tg_dl_0'')])"
    using download_media_amended [OF run_yt_partial run_gd_partial] by simp
  have c: "download_media example_world (u ''http://x.test/v'') (u ''/tmp/tg_dl_0'') [] =
     (Inl (Exception (u ''Download failed. yt-dlp: '' @ take 350 [] @ u '' | gallery-dl: '' @ take 350 [])), [],
      [yt_cmd (u ''http://x.test/v'') (u ''/tmp/tg_dl_0''),
       gd_cmd (u ''http://x.test/v'') (u ''/tmp/tg_dl_0'')])"
    using download_media_amended [OF run_yt_example run_gd_example] by simp
  from a b c show ?thesis by (simp add: u_def)
qed


section \<open>Properties of URL extraction\<close>

text \<open>
  Stripping the text does not change what \<open>extract_url\<close> finds: a match starts at a
  letter and ends before the first whitespace after it.
\<close>

lemma url_chars_not_space:
  "\<not> py_isspace 0x68" "\<not> py_isspace 0x48" "\<not> py_isspace 0x74" "\<not> py_isspace 0x54"
  "\<not> py_isspace 0x70" "\<not> py_isspace 0x50" "\<not> py_isspace 0x73" "\<not> py_isspace 0x53"
  "\<not> py_isspace 0x17F" "\<not> py_isspace 0x3A" "\<not> py_isspace 0x2F"
  by (simp_all add: py_isspace_def)

lemma takeWhile_spaces:
  "list_all py_isspace b \<Longrightarrow>
   takeWhile (\<lambda>x. \<not> py_isspace x) (r @ b) = takeWhile (\<lambda>x. \<not> py_isspace x) r"
  by (induction r) (auto simp add: list_all_iff takeWhile_eq_Nil_iff intro: hd_in_set)

lemma url_tail_space_head: "py_isspace x \<Longrightarrow> url_tail scheme (x # b) = None"
  by (auto simp add: url_tail_def url_chars_not_space split: list.split)

lemma url_tail_space_second: "py_isspace x \<Longrightarrow> url_tail scheme (x1 # x # b) = None"
  by (auto simp add: url_tail_def url_chars_not_space split: list.split)

lemma url_tail_space_third: "py_isspace x \<Longrightarrow> url_tail scheme (x1 # x2 # x # b) = None"
  by (auto simp add: url_tail_def url_chars_not_space split: list.split)

lemma url_tail_short:
  "url_tail scheme [] = None" "url_tail scheme [x1] = None" "url_tail scheme [x1, x2] = None"
  by (simp_all add: url_tail_def)

lemma url_tail_spaces:
  assumes "list_all py_isspace b"
  shows "url_tail scheme (r @ b) = url_tail scheme r"
proof (cases b)
  case Nil
  then show ?thesis by simp
next
  case (Cons x b')
  with assms have x: "py_isspace x" by simp
  consider "r = []" | x1 where "r = [x1]" | x1 x2 where "r = [x1, x2]"
    | x1 x2 x3 r' where "r = x1 # x2 # x3 # r'"
    by (cases r; cases "tl r"; cases "tl (tl r)") auto
  then show ?thesis
  proof cases
    case 1
    then show ?thesis
      by (simp add: Cons url_tail_space_head [OF x] url_tail_short)
  next
    case 2
    then show ?thesis
      by (simp add: Cons url_tail_space_second [OF x] url_tail_short)
  next
    case 3
    then show ?thesis
      by (simp add: Cons url_tail_space_third [OF x] url_tail_short)
  next
    case 4
    then show ?thesis
      using takeWhile_spaces [OF assms, of r']
      by (simp add: url_tail_def)
  qed
qed

lemma url_match_short:
  "url_match [] = None" "url_match [x1] = None" "url_match [x1, x2] = None"
  "url_match [x1, x2, x3] = None" "url_match [x1, x2, x3, x4] = None"
  by (simp_all add: url_match_def)

lemma url_match_space_first: "py_isspace x \<Longrightarrow> url_match (x # b) = None"
  by (auto simp add: url_match_def url_chars_not_space split: list.split)

lemma url_match_space_second: "py_isspace x \<Longrightarrow> url_match (x1 # x # b) = None"
  by (auto simp add: url_match_def url_chars_not_space split: list.split)

lemma url_match_space_third: "py_isspace x \<Longrightarrow> url_match (x1 # x2 # x # b) = None"
  by (auto simp add: url_match_def url_chars_not_space split: list.split)

lemma url_match_space_fourth: "py_isspace x \<Longrightarrow> url_match (x1 # x2 # x3 # x # b) = None"
  by (auto simp add: url_match_def url_chars_not_space split: list.split)

lemma url_match_space_fifth: "py_isspace x \<Longrightarrow> url_match (x1 # x2 # x3 # x4 # x # b) = None"
  by (auto simp add: url_match_def url_chars_not_space url_tail_space_head)

lemma url_match_spaces:
  assumes "list_all py_isspace b"
  shows "url_match (a @ b) = url_match a"
proof (cases b)
  case Nil
  then show ?thesis by simp
next
  case (Cons x b')
  with assms have x: "py_isspace x" by simp
  consider "a = []" | x1 where "a = [x1]" | x1 x2 where "a = [x1, x2]"
    | x1 x2 x3 where "a = [x1, x2, x3]" | x1 x2 x3 x4 where "a = [x1, x2, x3, x4]"
    | x1 x2 x3 x4 x5 r where "a = x1 # x2 # x3 # x4 # x5 # r"
    by (cases a; cases "tl a"; cases "tl (tl a)"; cases "tl (tl (tl a))";
        cases "tl (tl (tl (tl a)))") auto
  then show ?thesis
  proof cases
    case 1
    then show ?thesis by (simp add: Cons url_match_space_first [OF x] url_match_short)
  next
    case 2
    then show ?thesis by (simp add: Cons url_match_space_second [OF x] url_match_short)
  next
    case 3
    then show ?thesis by (simp add: Cons url_match_space_third [OF x] url_match_short)
  next
    case 4
    then show ?thesis by (simp add: Cons url_match_space_fourth [OF x] url_match_short)
  next
    case 5
    then show ?thesis by (simp add: Cons url_match_space_fifth [OF x] url_match_short)
  next
    case 6
    then show ?thesis
      using url_tail_spaces [OF assms, of "[x1, x2, x3, x4, x5]" r]
        url_tail_spaces [OF assms, of "[x1, x2, x3, x4]" "x5 # r"]
      by (simp add: url_match_def)
  qed
qed

lemma url_search_spaces: "list_all py_isspace b \<Longrightarrow> url_search b = None"
  by (induction b) (simp_all add: url_match_space_first)

lemma url_search_trailing:
  assumes "list_all py_isspace b"
  shows "url_search (a @ b) = url_search a"
proof (induction a)
  case Nil
  from assms show ?case by (simp add: url_search_spaces)
next
  case (Cons c a)
  have "url_match ((c # a) @ b) = url_match (c # a)"
    using assms by (rule url_match_spaces)
  with Cons show ?case by (simp split: option.split)
qed

lemma url_search_leading: "url_search (dropWhile py_isspace s) = url_search s"
  by (induction s) (simp_all add: url_match_space_first)

lemma extract_url_strip: "extract_url (py_strip s) = extract_url s"
proof -
  let ?x = "dropWhile py_isspace s"
  let ?a = "rev (dropWhile py_isspace (rev ?x))"
  let ?b = "rev (takeWhile py_isspace (rev ?x))"
  have "rev ?x = takeWhile py_isspace (rev ?x) @ dropWhile py_isspace (rev ?x)"
    by simp
  then have "rev (rev ?x) = ?a @ ?b"
    by (simp only: rev_append [symmetric])
  then have split: "?x = ?a @ ?b"
    by simp
  have "\<forall>c\<in>set (takeWhile py_isspace (rev ?x)). py_isspace c"
    by (blast dest: set_takeWhileD)
  then have spaces: "list_all py_isspace ?b"
    by (simp add: list_all_iff)
  have "url_search ?x = url_search ?a"
    using url_search_trailing [OF spaces, of ?a] split by simp
  then show ?thesis
    by (simp add: extract_url_def py_strip_def url_search_leading)
qed

text \<open>The example of the specification.\<close>

lemma extract_url_example:
  "extract_url (u ''check this out http://x.test/v/1 thanks'') = Some (u ''http://x.test/v/1'')"
  by (simp add: extract_url_def url_match_def url_tail_def u_def py_isspace_def)

section \<open>The state \<open>awaiting_url\<close> and the state \<open>awaiting_caption\<close>\<close>

text \<open>
  C1 as the claim states it fails on a text of whitespace: it holds no URL, the sender is
  in \<open>awaiting_url\<close>, and the handler sends nothing, so no bad-link message.
\<close>

theorem awaiting_url_blank_counterexample:
  "extract_url [0x20] = None \<and>
   fst (get_state (set_state init_storage 5 (u ''awaiting_url'')) 5) = Some (u ''awaiting_url'') \<and>
   snd (message_handler example_world example_cfg (set_state init_storage 5 (u ''awaiting_url''))
          (private_update 5 [0x20])) = []"
  by (simp add: extract_url_def url_match_def get_state_def message_handler_def private_update_def
      py_strip_def py_isspace_def)

text \<open>
  C1, amended. In a private chat, for a sender in state \<open>awaiting_url\<close> and a text that,
  stripped, is not empty, is not \<open>/start\<close> and does not lower to a cancel keyword: when
  the text holds a match of \<open>URL_RE\<close>, the handler clears the state, runs
  \<open>handle_download\<close> on the leftmost match and then replies with the menu, and the sender
  has no state afterwards; when it holds none, the handler only replies with the bad-link
  message and the sender is still in \<open>awaiting_url\<close>.
\<close>

theorem awaiting_url_amended:
  assumes "effective_chat upd = Some chat" and "chat_kind chat = PRIVATE"
    and "effective_user upd = Some uid" and "message upd = Some (Message (Some raw))"
    and "py_strip raw \<noteq> []" and "py_strip raw \<noteq> u ''/start''"
    and "str_lower w (py_strip raw) \<noteq> u ''cancel''" and "str_lower w (py_strip raw) \<noteq> otmena"
    and "fst (get_state st uid) = Some (u ''awaiting_url'')"
  shows "(case extract_url raw of
            Some url \<Rightarrow>
              message_handler w cfg st upd =
                (case handle_download w (clear_state (upsert_user st uid) uid) cfg (chat_id chat) uid url
                        (fst (get_language st uid)) of
                   (st', calls) \<Rightarrow>
                     (st', calls @ [Reply_text (t (fst (get_language st uid)) K_menu [])
                                     (make_menu (fst (get_language st uid)) (uid = owner_id cfg))])) \<and>
              fst (get_state (fst (message_handler w cfg st upd)) uid) = None
          | None \<Rightarrow>
              message_handler w cfg st upd =
                (upsert_user st uid, [Reply_text (t (fst (get_language st uid)) K_bad_link []) No_markup]) \<and>
              fst (get_state (fst (message_handler w cfg st upd)) uid) = Some (u ''awaiting_url''))"
  using assms extract_url_strip [of raw]
  by (simp add: message_handler_private_eq [OF assms(1-5)] message_handler_private_def get_state_def
      split_beta split: option.split)

text \<open>
  C3 as the claim states it fails on the text \<open>cancel\<close>: the owner is in
  \<open>awaiting_caption\<close>, and the caption is still empty after the message.
\<close>

theorem caption_cancel_counterexample:
  "fst (get_state (set_state init_storage 1 (u ''awaiting_caption'')) 1) = Some (u ''awaiting_caption'') \<and>
   owner_id example_cfg = 1 \<and>
   fst (get_media_caption (fst (message_handler example_world example_cfg
          (set_state init_storage 1 (u ''awaiting_caption'')) (private_update 1 (u ''cancel''))))) = []"
  by (simp add: get_state_def message_handler_private_eq [where raw = "u ''cancel''"
        and chat = "\<lparr>chat_id = 1, chat_kind = PRIVATE\<rparr>"] message_handler_private_def
      private_update_def example_cfg_def example_world_def example_lower_def
      py_strip_def py_isspace_def u_def get_media_caption_def init_storage_def)

text \<open>
  C3, amended. In a private chat, for the owner in state \<open>awaiting_caption\<close> and a text
  that, stripped, is not empty, is not \<open>/start\<close> and does not lower to a cancel keyword:
  the stripped text becomes the media caption, the owner has no state afterwards, and the
  handler replies that the caption is saved.
\<close>

theorem awaiting_caption_amended:
  assumes "effective_chat upd = Some chat" and "chat_kind chat = PRIVATE"
    and "effective_user upd = Some uid" and "message upd = Some (Message (Some raw))"
    and "py_strip raw \<noteq> []" and "py_strip raw \<noteq> u ''/start''"
    and "str_lower w (py_strip raw) \<noteq> u ''cancel''" and "str_lower w (py_strip raw) \<noteq> otmena"
    and "uid = owner_id cfg"
    and "fst (get_state st uid) = Some (u ''awaiting_caption'')"
  shows "fst (get_media_caption (fst (message_handler w cfg st upd))) = py_strip raw \<and>
         fst (get_state (fst (message_handler w cfg st upd)) uid) = None \<and>
         snd (message_handler w cfg st upd) =
           [Reply_text (t (fst (get_language st uid)) K_caption_saved [])
              (make_menu (fst (get_language st uid)) True)]"
  using assms
  by (simp add: message_handler_private_eq [OF assms(1-5)] message_handler_private_def get_state_def
      u_def)


lemma example_upd:
  "effective_chat (private_update uid s) = Some \<lparr>chat_id = uid, chat_kind = PRIVATE\<rparr>"
  "effective_user (private_update uid s) = Some uid"
  "message (private_update uid s) = Some (Message (Some s))"
  by (simp_all add: private_update_def)

lemmas example_simps = get_state_def py_strip_def py_isspace_def u_def otmena_def
        example_world_def example_lower_def example_cfg_def extract_url_def url_match_def url_tail_def

theorem awaiting_url_amended_witness:
  "fst (get_state (fst (message_handler example_world example_cfg
          (set_state init_storage 5 (u ''awaiting_url''))
          (private_update 5 (u ''see http://x.test/v/1 ok'')))) 5) = None \<and>
   message_handler example_world example_cfg (set_state init_storage 5 (u ''awaiting_url''))
     (private_update 5 (u ''hello'')) =
     (upsert_user (set_state init_storage 5 (u ''awaiting_url'')) 5,
      [Reply_text (t (fst (get_language (set_state init_storage 5 (u ''awaiting_url'')) 5)) K_bad_link [])
         No_markup])"
proof -
  let ?st = "set_state init_storage 5 (u ''awaiting_url'')"
  have st: "fst (get_state ?st 5) = Some (u ''awaiting_url'')"
    by (simp add: get_state_def)
  have s1: "py_strip (u ''see http://x.test/v/1 ok'') = u ''see http://x.test/v/1 ok''"
    and s2: "py_strip (u ''hello'') = u ''hello''"
    by (simp_all add: example_simps)
  have e1: "extract_url (u ''see http://x.test/v/1 ok'') = Some (u ''http://x.test/v/1'')"
    and e2: "extract_url (u ''hello'') = None"
    by (simp_all add: example_simps)
  have n1: "py_strip (u ''see http://x.test/v/1 ok'') \<noteq> []"
       "py_strip (u ''see http://x.test/v/1 ok'') \<noteq> u ''/start''"
       "str_lower example_world (py_strip (u ''see http://x.test/v/1 ok'')) \<noteq> u ''cancel''"
       "str_lower example_world (py_strip (u ''see http://x.test/v/1 ok'')) \<noteq> otmena"
    by (simp_all add: example_simps)
  have n2: "py_strip (u ''hello'') \<noteq> []" "py_strip (u ''hello'') \<noteq> u ''/start''"
       "str_lower example_world (py_strip (u ''hello'')) \<noteq> u ''cancel''"
       "str_lower example_world (py_strip (u ''hello'')) \<noteq> otmena"
    by (simp_all add: example_simps)
  note a = awaiting_url_amended [OF example_upd(1) _ example_upd(2) example_upd(3) n1 st,
      where cfg = example_cfg, unfolded e1 option.case, simplified, THEN conjunct2]
  note b = awaiting_url_amended [OF example_upd(1) _ example_upd(2) example_upd(3) n2 st,
      where cfg = example_cfg, unfolded e2 option.case, simplified, THEN conjunct1]
  from a b show ?thesis by simp
qed

theorem awaiting_caption_amended_witness:
  "fst (get_media_caption (fst (message_handler example_world example_cfg
          (set_state init_storage 1 (u ''awaiting_caption'')) (private_update 1 (u '' Enjoy! ''))))) =
     u ''Enjoy!'' \<and>
   fst (get_state (fst (message_handler example_world example_cfg
          (set_state init_storage 1 (u ''awaiting_caption'')) (private_update 1 (u '' Enjoy! '')))) 1) = None"
proof -
  let ?st = "set_state init_storage 1 (u ''awaiting_caption'')"
  have st: "fst (get_state ?st 1) = Some (u ''awaiting_caption'')"
    by (simp add: get_state_def)
  have s: "py_strip (u '' Enjoy! '') = u ''Enjoy!''"
    by (simp add: example_simps)
  have n: "py_strip (u '' Enjoy! '') \<noteq> []" "py_strip (u '' Enjoy! '') \<noteq> u ''/start''"
       "str_lower example_world (py_strip (u '' Enjoy! '')) \<noteq> u ''cancel''"
       "str_lower example_world (py_strip (u '' Enjoy! '')) \<noteq> otmena"
    by (simp_all add: example_simps)
  have o: "1 = owner_id example_cfg"
    by (simp add: example_cfg_def)
  note a = awaiting_caption_amended [OF example_upd(1) _ example_upd(2) example_upd(3) n o st,
      unfolded s, simplified]
  from a show ?thesis by simp
qed

section \<open>Properties of the broadcast\<close>

lemma broadcast_calls:
  "snd (broadcast w text recipients sent failed) =
     map (\<lambda>user. Send_message user (Raw text) No_markup) recipients"
  by (induction recipients arbitrary: sent failed) (simp_all add: split_beta split: option.split)

lemma broadcast_tally:
  "fst (broadcast w text recipients sent failed) =
     (sent + int (length (filter (\<lambda>user. raises w (Send_message user (Raw text) No_markup) = None) recipients)),
      failed + int (length (filter (\<lambda>user. raises w (Send_message user (Raw text) No_markup) \<noteq> None) recipients)))"
  by (induction recipients arbitrary: sent failed) (auto simp add: split_beta split: option.split)

text \<open>
  C7. In a private chat, when the owner is in \<open>awaiting_broadcast\<close> and sends a text
  that, stripped, is not empty, is not \<open>/start\<close> and does not lower to a cancel keyword,
  the handler sends the stripped text to every user of \<open>all_users\<close>, one send per entry
  of the list in the order of the list, whether or not earlier sends raised, and then one
  reply with the tally: \<open>sent\<close> counts the sends that returned, \<open>failed\<close> those that
  raised, and together they are the number of users. The list is the one \<open>all_users\<close>
  returns: the identities of the table, the owner among them, in ascending order; it
  names no user twice when the table does not.
\<close>

theorem broadcast_attempts_all:
  assumes "effective_chat upd = Some chat" and "chat_kind chat = PRIVATE"
    and "effective_user upd = Some uid" and "message upd = Some (Message (Some raw))"
    and "py_strip raw \<noteq> []" and "py_strip raw \<noteq> u ''/start''"
    and "str_lower w (py_strip raw) \<noteq> u ''cancel''" and "str_lower w (py_strip raw) \<noteq> otmena"
    and "uid = owner_id cfg"
    and "fst (get_state st uid) = Some (u ''awaiting_broadcast'')"
  shows "snd (message_handler w cfg st upd) =
           map (\<lambda>user. Send_message user (Raw (py_strip raw)) No_markup)
             (fst (all_users (upsert_user st uid)))
           @ [Reply_text (t (fst (get_language st uid)) K_broadcast_done
                [(''sent'', A_int (int (length (filter
                    (\<lambda>user. raises w (Send_message user (Raw (py_strip raw)) No_markup) = None)
                    (fst (all_users (upsert_user st uid))))))),
                 (''failed'', A_int (int (length (filter
                    (\<lambda>user. raises w (Send_message user (Raw (py_strip raw)) No_markup) \<noteq> None)
                    (fst (all_users (upsert_user st uid)))))))])
                (make_menu (fst (get_language st uid)) True)] \<and>
         length (filter (\<lambda>user. raises w (Send_message user (Raw (py_strip raw)) No_markup) = None)
                   (fst (all_users (upsert_user st uid)))) +
         length (filter (\<lambda>user. raises w (Send_message user (Raw (py_strip raw)) No_markup) \<noteq> None)
                   (fst (all_users (upsert_user st uid)))) =
         length (fst (all_users (upsert_user st uid))) \<and>
         (distinct (map fst (users st)) \<longrightarrow> distinct (fst (all_users (upsert_user st uid)))) \<and>
         sorted (fst (all_users (upsert_user st uid))) \<and>
         set (fst (all_users (upsert_user st uid))) = insert uid (fst ` set (users st))"
proof -
  let ?rs = "fst (all_users (upsert_user st uid))"
  have rs: "all_users (clear_state (upsert_user st uid) uid) = (?rs, clear_state (upsert_user st uid) uid)"
    by (simp add: all_users_def clear_state_def)
  obtain tally calls where b: "broadcast w (py_strip raw) ?rs 0 0 = (tally, calls)"
    by (cases "broadcast w (py_strip raw) ?rs 0 0")
  from b broadcast_calls [of w "py_strip raw" ?rs 0 0]
  have calls: "calls = map (\<lambda>user. Send_message user (Raw (py_strip raw)) No_markup) ?rs"
    by simp
  from b broadcast_tally [of w "py_strip raw" ?rs 0 0]
  have tally: "tally =
     (int (length (filter (\<lambda>user. raises w (Send_message user (Raw (py_strip raw)) No_markup) = None) ?rs)),
      int (length (filter (\<lambda>user. raises w (Send_message user (Raw (py_strip raw)) No_markup) \<noteq> None) ?rs)))"
    by simp
  have "snd (message_handler w cfg st upd) =
          calls @ [Reply_text (t (fst (get_language st uid)) K_broadcast_done
                     [(''sent'', A_int (fst tally)), (''failed'', A_int (snd tally))])
                     (make_menu (fst (get_language st uid)) True)]"
    using assms(6-10) rs b
    by (simp add: message_handler_private_eq [OF assms(1-5)] message_handler_private_def
        get_state_def u_def split_beta)
  then have sends: "snd (message_handler w cfg st upd) =
           map (\<lambda>user. Send_message user (Raw (py_strip raw)) No_markup) ?rs
           @ [Reply_text (t (fst (get_language st uid)) K_broadcast_done
                [(''sent'', A_int (int (length (filter
                    (\<lambda>user. raises w (Send_message user (Raw (py_strip raw)) No_markup) = None) ?rs)))),
                 (''failed'', A_int (int (length (filter
                    (\<lambda>user. raises w (Send_message user (Raw (py_strip raw)) No_markup) \<noteq> None) ?rs))))])
                (make_menu (fst (get_language st uid)) True)]"
    by (simp only: calls tally fst_conv snd_conv)
  have total: "length (filter (\<lambda>user. raises w (Send_message user (Raw (py_strip raw)) No_markup) = None) ?rs) +
         length (filter (\<lambda>user. raises w (Send_message user (Raw (py_strip raw)) No_markup) \<noteq> None) ?rs) =
         length ?rs"
    by (rule sum_length_filter_compl)
  have once: "distinct (map fst (users st)) \<longrightarrow> distinct ?rs"
    by (simp add: all_users_distinct)
  have ascending: "sorted ?rs"
    by (simp add: all_users_def)
  have known: "set ?rs = insert uid (fst ` set (users st))"
  proof (cases "map_of (users st) uid")
    case None
    then show ?thesis
      by (simp add: all_users_def upsert_user_def)
  next
    case (Some r)
    then have "(uid, r) \<in> set (users st)"
      by (rule map_of_SomeD)
    then have "uid \<in> fst ` set (users st)"
      by force
    with Some show ?thesis
      by (auto simp add: all_users_def upsert_user_def)
  qed
  from sends total once ascending known show ?thesis
    by blast
qed


theorem broadcast_attempts_all_witness:
  "snd (message_handler failing_world example_cfg three_users (private_update 1 (u ''hello''))) =
     [Send_message 1 (Raw (u ''hello'')) No_markup,
      Send_message 2 (Raw (u ''hello'')) No_markup,
      Send_message 3 (Raw (u ''hello'')) No_markup,
      Reply_text (T RU K_broadcast_done [(''sent'', A_int 2), (''failed'', A_int 1)])
        (make_menu (u ''ru'') True)]"
proof -
  have st: "fst (get_state three_users 1) = Some (u ''awaiting_broadcast'')"
    by (simp add: get_state_def three_users_def)
  have s: "py_strip (u ''hello'') = u ''hello''"
    by (simp add: example_simps)
  have n: "py_strip (u ''hello'') \<noteq> []" "py_strip (u ''hello'') \<noteq> u ''/start''"
       "str_lower failing_world (py_strip (u ''hello'')) \<noteq> u ''cancel''"
       "str_lower failing_world (py_strip (u ''hello'')) \<noteq> otmena"
    by (simp_all add: example_simps failing_world_def)
  have o: "1 = owner_id example_cfg"
    by (simp add: example_cfg_def)
  have rs: "fst (all_users (upsert_user three_users 1)) = [1, 2, 3]"
    by (simp add: all_users_def upsert_user_def three_users_def init_storage_def set_state_def
        default_row_def)
  have lang: "fst (get_language three_users 1) = u ''ru''"
    by (simp add: get_language_def upsert_user_def three_users_def init_storage_def set_state_def
        default_row_def)
  note a = broadcast_attempts_all [OF example_upd(1) _ example_upd(2) example_upd(3) n o st,
      THEN conjunct1, unfolded s rs lang]
  from a show ?thesis
    by (simp add: failing_world_def example_world_def t_def)
qed

section \<open>The locale gate\<close>

text \<open>
  C2 does not hold of \<open>message_handler\<close>. On a fresh store identity 5 has not confirmed a
  locale. \<open>start_handler\<close> then asks for the language and shows no menu, but a plain text
  in the private chat goes through \<open>message_handler\<close>, which never calls \<open>has_language\<close>:
  it replies with the main menu, and the locale is still unconfirmed afterwards.
\<close>

theorem menu_before_locale_confirmed:
  "fst (has_language init_storage 5) = False \<and>
   start_handler example_world example_cfg init_storage (private_update 5 (u ''/start'')) =
     (upsert_user init_storage 5, [Reply_text (T RU K_choose_lang []) make_language_buttons]) \<and>
   message_handler example_world example_cfg init_storage (private_update 5 (u ''hi'')) =
     (upsert_user init_storage 5,
      [Reply_text (T RU K_menu []) (make_menu (u ''ru'') False)]) \<and>
   fst (has_language (upsert_user init_storage 5) 5) = False"
  by (simp add: has_language_def start_handler_def private_update_def
      message_handler_private_eq [where raw = "u ''hi''"
        and chat = "\<lparr>chat_id = 5, chat_kind = PRIVATE\<rparr>"] message_handler_private_def
      message_handler_menu_def example_simps t_def get_language_def upsert_user_def
      init_storage_def default_row_def btn_download_ru_def btn_download_en_def
      btn_format_ru_def btn_format_en_def btn_language_ru_def btn_language_en_def
      btn_help_ru_def btn_help_en_def btn_caption_ru_def btn_caption_en_def
      btn_broadcast_ru_def btn_broadcast_en_def)

section \<open>What a sender who is not the owner can do\<close>


lemma attempt_no_broadcast:
  "filter is_broadcast_send cs = [] \<Longrightarrow> filter is_broadcast_send (fst (attempt w cs)) = []"
  by (induction cs) (auto simp add: split_beta split: option.split if_splits)

lemma handle_download_try_no_broadcast:
  "filter is_broadcast_send (snd (snd (handle_download_try w st cfg chat sender_id url lang))) = []"
  by (simp add: handle_download_try_def split_beta attempt_no_broadcast t_def
      split: prod.split sum.split option.split)

lemma handle_download_no_broadcast:
  "filter is_broadcast_send (snd (handle_download w st cfg chat sender_id url lang)) = []"
proof (cases "handle_download_try w st cfg chat sender_id url lang")
  case (fields r st' calls)
  with handle_download_try_no_broadcast [of w st cfg chat sender_id url lang]
  show ?thesis by (simp add: handle_download_def t_def split: option.split)
qed

lemma message_handler_menu_settings:
  "bot_settings (fst (message_handler_menu st uid lang is_owner text)) = bot_settings st"
  by (simp add: message_handler_menu_def split_beta)

lemma message_handler_menu_no_broadcast:
  "filter is_broadcast_send (snd (message_handler_menu st uid lang is_owner text)) = []"
  by (simp add: message_handler_menu_def split_beta t_def)

lemma message_handler_menu_state:
  "map_of (user_states (fst (message_handler_menu st uid lang False text))) uid =
     (if text = btn_download_ru \<or> text = btn_download_en then Some (u ''awaiting_url'')
      else map_of (user_states st) uid)"
  by (simp add: message_handler_menu_def split_beta)

lemma message_handler_private_non_owner:
  "bot_settings (fst (message_handler_private w cfg st chat uid lang False text)) = bot_settings st \<and>
   filter is_broadcast_send (snd (message_handler_private w cfg st chat uid lang False text)) = []"
  by (simp add: message_handler_private_def get_state_def split_beta t_def
      message_handler_menu_settings message_handler_menu_no_broadcast
      handle_download_no_broadcast split: option.split)

lemma message_handler_group_frame:
  "bot_settings (fst (message_handler_group w cfg st chat uid lang text)) = bot_settings st \<and>
   filter is_broadcast_send (snd (message_handler_group w cfg st chat uid lang text)) = []"
  by (simp add: message_handler_group_def Let_def handle_download_no_broadcast split: option.split)

lemma message_handler_non_owner:
  assumes "effective_user upd = Some uid" and "uid \<noteq> owner_id cfg"
  shows "bot_settings (fst (message_handler w cfg st upd)) = bot_settings st \<and>
         filter is_broadcast_send (snd (message_handler w cfg st upd)) = []"
  using assms
  by (simp add: message_handler_def Let_def split_beta message_handler_private_non_owner
      message_handler_group_frame)


lemma set_language_settings [simp]: "bot_settings (set_language st uid lang) = bot_settings st"
  by (simp add: set_language_def Let_def)

lemma set_format_settings [simp]: "bot_settings (set_format st uid fmt) = bot_settings st"
  by (simp add: set_format_def Let_def)

lemma start_handler_frame:
  "bot_settings (fst (start_handler w cfg st upd)) = bot_settings st \<and>
   filter is_broadcast_send (snd (start_handler w cfg st upd)) = []"
  by (simp add: start_handler_def Let_def split_beta has_language_def t_def split: option.split)

lemma callback_handler_frame:
  "bot_settings (fst (callback_handler w cfg st upd)) = bot_settings st \<and>
   filter is_broadcast_send (snd (callback_handler w cfg st upd)) = []"
  by (simp add: callback_handler_def Let_def split_beta t_def split: option.split)

lemma upsert_user_states_update:
  "upsert_user (st\<lparr>user_states := x\<rparr>) uid = (upsert_user st uid)\<lparr>user_states := x\<rparr>"
  by (simp add: upsert_user_def split: option.split)

lemma get_language_states_update:
  "fst (get_language (st\<lparr>user_states := x\<rparr>) uid) = fst (get_language st uid)"
  by (simp add: get_language_def Let_def upsert_user_states_update)

lemma get_format_states_update:
  "fst (get_format (st\<lparr>user_states := x\<rparr>) uid) = fst (get_format st uid)"
  by (simp add: get_format_def Let_def upsert_user_states_update)

lemma get_media_caption_states_update:
  "fst (get_media_caption (st\<lparr>user_states := x\<rparr>)) = fst (get_media_caption st)"
  by (simp add: get_media_caption_def split: option.split)

lemma handle_download_try_states_update:
  "fst (handle_download_try w (st\<lparr>user_states := x\<rparr>) cfg chat sender_id url lang) =
     fst (handle_download_try w st cfg chat sender_id url lang) \<and>
   snd (snd (handle_download_try w (st\<lparr>user_states := x\<rparr>) cfg chat sender_id url lang)) =
     snd (snd (handle_download_try w st cfg chat sender_id url lang))"
  by (simp add: handle_download_try_def split_beta get_format_states_update
      get_media_caption_states_update upsert_user_states_update
      split: prod.split sum.split option.split)

lemma handle_download_states_update:
  "snd (handle_download w (st\<lparr>user_states := x\<rparr>) cfg chat sender_id url lang) =
     snd (handle_download w st cfg chat sender_id url lang)"
proof -
  obtain r st' calls where a: "handle_download_try w st cfg chat sender_id url lang = (r, st', calls)"
    by (cases "handle_download_try w st cfg chat sender_id url lang")
  obtain r2 st2 calls2 where
    b: "handle_download_try w (st\<lparr>user_states := x\<rparr>) cfg chat sender_id url lang = (r2, st2, calls2)"
    by (cases "handle_download_try w (st\<lparr>user_states := x\<rparr>) cfg chat sender_id url lang")
  from a b handle_download_try_states_update [where w = w and st = st and x = x and cfg = cfg
      and chat = chat and sender_id = sender_id and url = url and lang = lang]
  have "r2 = r" and "calls2 = calls" by simp_all
  with a b show ?thesis
    by (simp add: handle_download_def split: option.split)
qed

lemma message_handler_menu_states_update:
  "snd (message_handler_menu (st\<lparr>user_states := x\<rparr>) uid lang is_owner text) =
     snd (message_handler_menu st uid lang is_owner text)"
  by (simp add: message_handler_menu_def split_beta get_format_states_update)

lemma message_handler_group_states_update:
  "snd (message_handler_group w cfg (st\<lparr>user_states := x\<rparr>) chat uid lang text) =
     snd (message_handler_group w cfg st chat uid lang text)"
  by (simp add: message_handler_group_def Let_def handle_download_states_update split: option.split)

lemma message_handler_private_stale:
  assumes "map_of (user_states st) uid = Some s" and "s \<noteq> u ''awaiting_url''"
  shows "snd (message_handler_private w cfg (st\<lparr>user_states := AList.delete uid (user_states st)\<rparr>)
                chat uid lang False text) =
         snd (message_handler_private w cfg st chat uid lang False text)"
  using assms
  by (simp add: message_handler_private_def get_state_def delete_conv'
      message_handler_menu_states_update)

lemma message_handler_unfold:
  assumes "effective_chat upd = Some chat" and "effective_user upd = Some uid"
    and "message upd = Some m"
    and "py_strip (case msg_text m of None \<Rightarrow> [] | Some s \<Rightarrow> s) \<noteq> []"
  shows "message_handler w cfg st upd =
           (if chat_kind chat = PRIVATE
            then message_handler_private w cfg (upsert_user st uid) chat uid (fst (get_language st uid))
                   (uid = owner_id cfg) (py_strip (case msg_text m of None \<Rightarrow> [] | Some s \<Rightarrow> s))
            else if chat_kind chat = GROUP \<or> chat_kind chat = SUPERGROUP
            then message_handler_group w cfg (upsert_user st uid) chat uid (fst (get_language st uid))
                   (py_strip (case msg_text m of None \<Rightarrow> [] | Some s \<Rightarrow> s))
            else (upsert_user st uid, []))"
  using assms
  by (simp add: message_handler_def Let_def split_beta)

lemma stale_state_not_honored:
  assumes "effective_user upd = Some uid" and "uid \<noteq> owner_id cfg"
    and "fst (get_state st uid) = Some s"
    and "s = u ''awaiting_caption'' \<or> s = u ''awaiting_broadcast''"
  shows "snd (message_handler w cfg st upd) = snd (message_handler w cfg (clear_state st uid) upd)"
proof (cases "effective_chat upd = None \<or> message upd = None \<or>
    py_strip (case msg_text (the (message upd)) of None \<Rightarrow> [] | Some s \<Rightarrow> s) = []")
  case True
  then show ?thesis
    by (auto simp add: message_handler_def Let_def)
next
  case False
  then obtain chat m where c: "effective_chat upd = Some chat" and m: "message upd = Some m"
    and nonblank: "py_strip (case msg_text m of None \<Rightarrow> [] | Some s \<Rightarrow> s) \<noteq> []"
    by auto
  have ne: "s \<noteq> u ''awaiting_url''"
    using assms(4) by (auto simp add: u_def)
  have st: "map_of (user_states (upsert_user st uid)) uid = Some s"
    using assms(3) by (simp add: get_state_def)
  have cl: "upsert_user (clear_state st uid) uid =
              (upsert_user st uid)\<lparr>user_states := AList.delete uid (user_states (upsert_user st uid))\<rparr>"
    by (simp add: clear_state_def upsert_user_states_update)
  have lang: "fst (get_language (clear_state st uid) uid) = fst (get_language st uid)"
    by (simp add: clear_state_def get_language_states_update)
  show ?thesis
    using assms(2) message_handler_private_stale [OF st ne, of w cfg chat _ "py_strip (case msg_text m of None \<Rightarrow> [] | Some s \<Rightarrow> s)"]
    by (simp add: message_handler_unfold [OF c assms(1) m nonblank] cl lang
        message_handler_group_states_update)
qed

lemma message_handler_group_states:
  "user_states (fst (message_handler_group w cfg st chat uid lang s)) = user_states st"
  by (simp add: message_handler_group_def Let_def split: option.split)

lemma stale_state_kept:
  assumes "effective_user upd = Some uid"
    and "fst (get_state st uid) = Some s"
    and "effective_chat upd = None \<or> message upd = None \<or>
         chat_kind (the (effective_chat upd)) \<noteq> PRIVATE \<or>
         py_strip (case msg_text (the (message upd)) of None \<Rightarrow> [] | Some r \<Rightarrow> r) = [] \<or>
         py_strip (case msg_text (the (message upd)) of None \<Rightarrow> [] | Some r \<Rightarrow> r) = u ''/start''"
  shows "fst (get_state (fst (message_handler w cfg st upd)) uid) = Some s"
proof (cases "effective_chat upd = None \<or> message upd = None \<or>
    py_strip (case msg_text (the (message upd)) of None \<Rightarrow> [] | Some r \<Rightarrow> r) = []")
  case True
  with assms(2) show ?thesis
    by (auto simp add: message_handler_def Let_def)
next
  case False
  then obtain chat m where c: "effective_chat upd = Some chat" and m: "message upd = Some m"
    and nonblank: "py_strip (case msg_text m of None \<Rightarrow> [] | Some r \<Rightarrow> r) \<noteq> []"
    by auto
  from assms(3) c m nonblank
  have rest: "chat_kind chat \<noteq> PRIVATE \<or>
              py_strip (case msg_text m of None \<Rightarrow> [] | Some r \<Rightarrow> r) = u ''/start''"
    by simp
  show ?thesis
    using assms(2) rest
    by (auto simp add: message_handler_unfold [OF c assms(1) m nonblank] get_state_def
        message_handler_group_states message_handler_private_def)
qed

text \<open>
  C9 as the claim states it fails on the download button: identity 5 is not the owner and
  holds \<open>awaiting_caption\<close>; the button is no cancel keyword, and after the message the
  state is \<open>awaiting_url\<close>, so the stale state is gone.
\<close>

theorem stale_state_superseded_counterexample:
  "owner_id example_cfg \<noteq> 5 \<and>
   fst (get_state (set_state init_storage 5 (u ''awaiting_caption'')) 5) = Some (u ''awaiting_caption'') \<and>
   str_lower example_world btn_download_en \<noteq> u ''cancel'' \<and>
   str_lower example_world btn_download_en \<noteq> otmena \<and>
   fst (get_state (fst (message_handler example_world example_cfg
          (set_state init_storage 5 (u ''awaiting_caption'')) (private_update 5 btn_download_en))) 5) =
     Some (u ''awaiting_url'')"
  by (simp add: get_state_def message_handler_private_eq [where raw = btn_download_en
        and chat = "\<lparr>chat_id = 5, chat_kind = PRIVATE\<rparr>"] message_handler_private_def
      message_handler_menu_def private_update_def example_cfg_def example_world_def
      example_lower_def py_strip_def py_isspace_def u_def otmena_def btn_download_en_def)

text \<open>
  C9, amended. For a sender who is not the owner, no handler writes the settings table,
  so the media caption stays as it was, and no handler makes a broadcast send. When such
  a sender holds the state \<open>awaiting_caption\<close> or \<open>awaiting_broadcast\<close>, the state is not
  honored: for every update, \<open>message_handler\<close> makes the transport calls it makes for the
  same sender without a state. When the update is, in a private chat, a text that
  stripped is neither empty nor \<open>/start\<close>: a cancel keyword clears the state, the
  download button replaces it with \<open>awaiting_url\<close>, and every other text is handled
  exactly as the menu dispatch handles it and leaves the state as it was. Every other
  update leaves the state as it was.
\<close>

theorem non_owner_stale_state:
  assumes "effective_user upd = Some uid" and "uid \<noteq> owner_id cfg"
  shows "bot_settings (fst (message_handler w cfg st upd)) = bot_settings st \<and>
         fst (get_media_caption (fst (message_handler w cfg st upd))) = fst (get_media_caption st) \<and>
         filter is_broadcast_send (snd (message_handler w cfg st upd)) = [] \<and>
         bot_settings (fst (start_handler w cfg st upd)) = bot_settings st \<and>
         filter is_broadcast_send (snd (start_handler w cfg st upd)) = [] \<and>
         bot_settings (fst (callback_handler w cfg st upd)) = bot_settings st \<and>
         filter is_broadcast_send (snd (callback_handler w cfg st upd)) = [] \<and>
         (\<forall>s. fst (get_state st uid) = Some s \<and>
              (s = u ''awaiting_caption'' \<or> s = u ''awaiting_broadcast'') \<longrightarrow>
              snd (message_handler w cfg st upd) =
                snd (message_handler w cfg (clear_state st uid) upd)) \<and>
         (\<forall>s. fst (get_state st uid) = Some s \<and>
              (effective_chat upd = None \<or> message upd = None \<or>
               chat_kind (the (effective_chat upd)) \<noteq> PRIVATE \<or>
               py_strip (case msg_text (the (message upd)) of None \<Rightarrow> [] | Some r \<Rightarrow> r) = [] \<or>
               py_strip (case msg_text (the (message upd)) of None \<Rightarrow> [] | Some r \<Rightarrow> r) =
                 u ''/start'') \<longrightarrow>
              fst (get_state (fst (message_handler w cfg st upd)) uid) = Some s) \<and>
         (\<forall>chat raw s.
            effective_chat upd = Some chat \<and> chat_kind chat = PRIVATE \<and>
            message upd = Some (Message (Some raw)) \<and>
            py_strip raw \<noteq> [] \<and> py_strip raw \<noteq> u ''/start'' \<and>
            fst (get_state st uid) = Some s \<and>
            (s = u ''awaiting_caption'' \<or> s = u ''awaiting_broadcast'') \<longrightarrow>
            (if str_lower w (py_strip raw) = u ''cancel'' \<or> str_lower w (py_strip raw) = otmena
             then fst (get_state (fst (message_handler w cfg st upd)) uid) = None
             else message_handler w cfg st upd =
                    message_handler_menu (upsert_user st uid) uid (fst (get_language st uid)) False
                      (py_strip raw) \<and>
                  fst (get_state (fst (message_handler w cfg st upd)) uid) =
                    (if py_strip raw = btn_download_ru \<or> py_strip raw = btn_download_en
                     then Some (u ''awaiting_url'') else Some s)))"
proof -
  note frame = message_handler_non_owner [OF assms, of w st]
  have caption: "fst (get_media_caption (fst (message_handler w cfg st upd))) = fst (get_media_caption st)"
    using frame by (simp add: get_media_caption_def split: option.split)
  have stale: "if str_lower w (py_strip raw) = u ''cancel'' \<or> str_lower w (py_strip raw) = otmena
             then fst (get_state (fst (message_handler w cfg st upd)) uid) = None
             else message_handler w cfg st upd =
                    message_handler_menu (upsert_user st uid) uid (fst (get_language st uid)) False
                      (py_strip raw) \<and>
                  fst (get_state (fst (message_handler w cfg st upd)) uid) =
                    (if py_strip raw = btn_download_ru \<or> py_strip raw = btn_download_en
                     then Some (u ''awaiting_url'') else Some s)"
    if h: "effective_chat upd = Some chat" "chat_kind chat = PRIVATE"
      "message upd = Some (Message (Some raw))" "py_strip raw \<noteq> []" "py_strip raw \<noteq> u ''/start''"
      "fst (get_state st uid) = Some s" "s = u ''awaiting_caption'' \<or> s = u ''awaiting_broadcast''"
    for chat raw s
  proof -
    have eq: "message_handler w cfg st upd =
           message_handler_private w cfg (upsert_user st uid) chat uid (fst (get_language st uid))
             False (py_strip raw)"
      using message_handler_private_eq [OF h(1,2) assms(1) h(3,4), of w cfg st] assms(2) by simp
    have ne: "s \<noteq> u ''awaiting_url''"
      using h(7) by (auto simp add: u_def)
    show ?thesis
      using h(5,6) ne assms(2)
      by (simp add: eq message_handler_private_def get_state_def message_handler_menu_state)
  qed
  have idle: "snd (message_handler w cfg st upd) =
                snd (message_handler w cfg (clear_state st uid) upd)"
    if "fst (get_state st uid) = Some s" "s = u ''awaiting_caption'' \<or> s = u ''awaiting_broadcast''"
    for s
    using assms that by (rule stale_state_not_honored)
  have kept: "fst (get_state (fst (message_handler w cfg st upd)) uid) = Some s"
    if "fst (get_state st uid) = Some s"
      "effective_chat upd = None \<or> message upd = None \<or>
       chat_kind (the (effective_chat upd)) \<noteq> PRIVATE \<or>
       py_strip (case msg_text (the (message upd)) of None \<Rightarrow> [] | Some r \<Rightarrow> r) = [] \<or>
       py_strip (case msg_text (the (message upd)) of None \<Rightarrow> [] | Some r \<Rightarrow> r) = u ''/start''"
    for s
    using assms(1) that by (rule stale_state_kept)
  from frame caption stale idle kept start_handler_frame [of w cfg st upd]
    callback_handler_frame [of w cfg st upd]
  show ?thesis
    by blast
qed

theorem non_owner_stale_state_witness:
  "message_handler example_world example_cfg (set_state init_storage 5 (u ''awaiting_caption''))
     (private_update 5 (u ''hello'')) =
     (upsert_user (set_state init_storage 5 (u ''awaiting_caption'')) 5,
      [Reply_text (T RU K_menu []) (make_menu (u ''ru'') False)]) \<and>
   fst (get_state (fst (message_handler example_world example_cfg
          (set_state init_storage 5 (u ''awaiting_caption'')) (private_update 5 (u ''hello'')))) 5) =
     Some (u ''awaiting_caption'') \<and>
   fst (get_state (fst (message_handler example_world example_cfg
          (set_state init_storage 5 (u ''awaiting_broadcast'')) (private_update 5 btn_download_ru))) 5) =
     Some (u ''awaiting_url'') \<and>
   fst (get_state (fst (message_handler example_world example_cfg
          (set_state init_storage 5 (u ''awaiting_broadcast'')) (private_update 5 (u ''Cancel'')))) 5) =
     None"
proof -
  let ?st = "set_state init_storage 5 (u ''awaiting_caption'')"
  let ?sb = "set_state init_storage 5 (u ''awaiting_broadcast'')"
  have neq: "5 \<noteq> owner_id example_cfg"
    by (simp add: example_cfg_def)
  have s: "py_strip (u ''hello'') = u ''hello''"
    by (simp add: example_simps)
  have hyp: "effective_chat (private_update 5 (u ''hello'')) = Some \<lparr>chat_id = 5, chat_kind = PRIVATE\<rparr> \<and>
       chat_kind \<lparr>chat_id = 5, chat_kind = PRIVATE\<rparr> = PRIVATE \<and>
       message (private_update 5 (u ''hello'')) = Some (Message (Some (u ''hello''))) \<and>
       py_strip (u ''hello'') \<noteq> [] \<and> py_strip (u ''hello'') \<noteq> u ''/start'' \<and>
       fst (get_state ?st 5) = Some (u ''awaiting_caption'') \<and>
       (u ''awaiting_caption'' = u ''awaiting_caption'' \<or> u ''awaiting_caption'' = u ''awaiting_broadcast'')"
    by (simp add: example_upd example_simps)
  have lower: "\<not> (str_lower example_world (u ''hello'') = u ''cancel'' \<or>
                  str_lower example_world (u ''hello'') = otmena)"
    by (simp add: example_simps)
  have button: "\<not> (u ''hello'' = btn_download_ru \<or> u ''hello'' = btn_download_en)"
    by (simp add: u_def btn_download_ru_def btn_download_en_def)
  have menu: "message_handler_menu (upsert_user ?st 5) 5 (fst (get_language ?st 5)) False (u ''hello'') =
       (upsert_user ?st 5, [Reply_text (T RU K_menu []) (make_menu (u ''ru'') False)])"
    by (simp add: message_handler_menu_def u_def t_def get_language_def upsert_user_def
      init_storage_def set_state_def default_row_def btn_download_ru_def btn_download_en_def
      btn_format_ru_def btn_format_en_def btn_language_ru_def btn_language_en_def
      btn_help_ru_def btn_help_en_def btn_caption_ru_def btn_caption_en_def
      btn_broadcast_ru_def btn_broadcast_en_def)
  note a = non_owner_stale_state [OF example_upd(2) neq, of example_world ?st "u ''hello''",
      THEN conjunct2, THEN conjunct2, THEN conjunct2, THEN conjunct2, THEN conjunct2,
      THEN conjunct2, THEN conjunct2, THEN conjunct2, THEN conjunct2, rule_format, OF hyp,
      unfolded s if_not_P [OF lower] if_not_P [OF button] menu]
  have s2: "py_strip btn_download_ru = btn_download_ru"
    by (simp add: example_simps btn_download_ru_def)
  have hyp2: "effective_chat (private_update 5 btn_download_ru) = Some \<lparr>chat_id = 5, chat_kind = PRIVATE\<rparr> \<and>
       chat_kind \<lparr>chat_id = 5, chat_kind = PRIVATE\<rparr> = PRIVATE \<and>
       message (private_update 5 btn_download_ru) = Some (Message (Some btn_download_ru)) \<and>
       py_strip btn_download_ru \<noteq> [] \<and> py_strip btn_download_ru \<noteq> u ''/start'' \<and>
       fst (get_state ?sb 5) = Some (u ''awaiting_broadcast'') \<and>
       (u ''awaiting_broadcast'' = u ''awaiting_caption'' \<or> u ''awaiting_broadcast'' = u ''awaiting_broadcast'')"
    by (simp add: example_upd example_simps btn_download_ru_def)
  have lower2: "\<not> (str_lower example_world btn_download_ru = u ''cancel'' \<or>
                  str_lower example_world btn_download_ru = otmena)"
    by (simp add: example_simps btn_download_ru_def)
  have button2: "btn_download_ru = btn_download_ru \<or> btn_download_ru = btn_download_en"
    by simp
  note b = non_owner_stale_state [OF example_upd(2) neq, of example_world ?sb btn_download_ru,
      THEN conjunct2, THEN conjunct2, THEN conjunct2, THEN conjunct2, THEN conjunct2,
      THEN conjunct2, THEN conjunct2, THEN conjunct2, THEN conjunct2, rule_format, OF hyp2,
      unfolded s2 if_not_P [OF lower2] if_P [OF button2], THEN conjunct2]
  have s3: "py_strip (u ''Cancel'') = u ''Cancel''"
    by (simp add: example_simps)
  have hyp3: "effective_chat (private_update 5 (u ''Cancel'')) = Some \<lparr>chat_id = 5, chat_kind = PRIVATE\<rparr> \<and>
       chat_kind \<lparr>chat_id = 5, chat_kind = PRIVATE\<rparr> = PRIVATE \<and>
       message (private_update 5 (u ''Cancel'')) = Some (Message (Some (u ''Cancel''))) \<and>
       py_strip (u ''Cancel'') \<noteq> [] \<and> py_strip (u ''Cancel'') \<noteq> u ''/start'' \<and>
       fst (get_state ?sb 5) = Some (u ''awaiting_broadcast'') \<and>
       (u ''awaiting_broadcast'' = u ''awaiting_caption'' \<or> u ''awaiting_broadcast'' = u ''awaiting_broadcast'')"
    by (simp add: example_upd example_simps)
  have lower3: "str_lower example_world (u ''Cancel'') = u ''cancel'' \<or>
                  str_lower example_world (u ''Cancel'') = otmena"
    by (simp add: example_simps)
  note c = non_owner_stale_state [OF example_upd(2) neq, of example_world ?sb "u ''Cancel''",
      THEN conjunct2, THEN conjunct2, THEN conjunct2, THEN conjunct2, THEN conjunct2,
      THEN conjunct2, THEN conjunct2, THEN conjunct2, THEN conjunct2, rule_format, OF hyp3,
      unfolded s3 if_P [OF lower3]]
  from a b c show ?thesis
    by blast
qed

end
